theory Spec2Isabelle
  imports Main "HOL-Library.Word" "HOL-Library.AList"
begin

section \<open>JavaScript strings\<close>

text \<open>
  A JavaScript string is a sequence of UTF-16 code units: \<open>length\<close>, \<open>slice\<close>,
  \<open>trim\<close> and the regular expressions of \<open>functions/index.js\<close> (none has the
  \<open>u\<close> flag) all count and compare code units.
\<close>

type_synonym code_unit = "16 word"
type_synonym jsstring = "code_unit list"

definition js :: "string \<Rightarrow> jsstring" where
  \<comment> \<open>an ASCII literal of the source\<close>
  "js s = map of_char s"

definition is_line_terminator :: "code_unit \<Rightarrow> bool" where
  \<comment> \<open>LineTerminator: LF, CR, LS, PS\<close>
  "is_line_terminator c \<longleftrightarrow> c = 0x0A \<or> c = 0x0D \<or> c = 0x2028 \<or> c = 0x2029"

definition is_white_space :: "code_unit \<Rightarrow> bool" where
  \<comment> \<open>WhiteSpace: TAB, VT, FF, ZWNBSP and the Unicode category Zs\<close>
  "is_white_space c \<longleftrightarrow>
     c = 0x09 \<or> c = 0x0B \<or> c = 0x0C \<or> c = 0x20 \<or> c = 0xA0 \<or> c = 0x1680 \<or>
     (0x2000 \<le> c \<and> c \<le> 0x200A) \<or> c = 0x202F \<or> c = 0x205F \<or> c = 0x3000 \<or>
     c = 0xFEFF"

definition is_space :: "code_unit \<Rightarrow> bool" where
  \<comment> \<open>the class \<open>\s\<close>, and what \<open>String.prototype.trim\<close> strips\<close>
  "is_space c \<longleftrightarrow> is_white_space c \<or> is_line_terminator c"

definition trim :: "jsstring \<Rightarrow> jsstring" where
  "trim s = rev (dropWhile is_space (rev (dropWhile is_space s)))"

definition rtrim :: "jsstring \<Rightarrow> jsstring" where
  \<comment> \<open>the right half of \<open>trim\<close>\<close>
  "rtrim s = rev (dropWhile is_space (rev s))"

function replace_spaces :: "jsstring \<Rightarrow> jsstring" where
  \<comment> \<open>\<open>.replace(/\s+/g, " ")\<close>: every maximal run of \<open>\s\<close> becomes one U+0020\<close>
  "replace_spaces [] = []"
| "replace_spaces (c # cs) =
     (if is_space c then 0x20 # replace_spaces (dropWhile is_space cs)
      else c # replace_spaces cs)"
  by pat_completeness auto
termination
  by (relation "measure length") (auto simp: less_Suc_eq_le length_dropWhile_le)

definition slice0 :: "nat \<Rightarrow> jsstring \<Rightarrow> jsstring" where
  \<comment> \<open>\<open>s.slice(0, n)\<close>\<close>
  "slice0 n s = take n s"

subsection \<open>The two regular expressions\<close>

definition ascii_upper :: "code_unit \<Rightarrow> code_unit" where
  \<comment> \<open>Canonicalize of the \<open>i\<close> flag, as far as it can reach an ASCII character: a code
      unit from U+0080 on is never canonicalized to one below\<close>
  "ascii_upper c = (if 0x61 \<le> c \<and> c \<le> 0x7A then c - 0x20 else c)"

fun match_literal_ci :: "jsstring \<Rightarrow> jsstring \<Rightarrow> jsstring option" where
  \<comment> \<open>the literal characters of a pattern, ignoring case; the input left after them\<close>
  "match_literal_ci [] s = Some s"
| "match_literal_ci (p # ps) [] = None"
| "match_literal_ci (p # ps) (c # cs) =
     (if ascii_upper c = ascii_upper p then match_literal_ci ps cs else None)"

definition match_bearer :: "jsstring \<Rightarrow> jsstring option" where
  \<comment> \<open>\<open>s.match(/^Bearer (.+)$/i)\<close>: \<open>None\<close> for null, else group 1. There is no \<open>s\<close>
      flag, so \<open>.\<close> refuses the line terminators, and no \<open>m\<close> flag, so \<open>$\<close> is the end
      of the input\<close>
  "match_bearer s =
     (case match_literal_ci (js ''Bearer '') s of
        None \<Rightarrow> None
      | Some rest \<Rightarrow>
          if rest \<noteq> [] \<and> list_all (\<lambda>c. \<not> is_line_terminator c) rest then Some rest
          else None)"

definition is_sentence_end :: "code_unit \<Rightarrow> bool" where
  \<comment> \<open>the class \<open>[.!?]\<close>\<close>
  "is_sentence_end c \<longleftrightarrow> c = 0x2E \<or> c = 0x21 \<or> c = 0x3F"

definition split_match_at :: "jsstring \<Rightarrow> nat \<Rightarrow> nat option" where
  \<comment> \<open>\<open>/(?<=[.!?])\s+/\<close> tried at index \<open>q\<close> of \<open>S\<close> (sticky): the end index of the match\<close>
  "split_match_at S q =
     (if 0 < q \<and> q < length S \<and> is_sentence_end (S ! (q - 1)) \<and> is_space (S ! q)
      then Some (q + length (takeWhile is_space (drop q S)))
      else None)"

function split_loop :: "jsstring \<Rightarrow> nat \<Rightarrow> nat \<Rightarrow> jsstring list" where
  \<comment> \<open>the loop of \<open>RegExp.prototype[@@split]\<close>: \<open>p\<close> is where the current piece
      starts, \<open>q\<close> where the next match is tried\<close>
  "split_loop S p q =
     (if q < length S then
        (case split_match_at S q of
           None \<Rightarrow> split_loop S p (q + 1)
         | Some e \<Rightarrow>
             if e = p then split_loop S p (q + 1)
             else take (q - p) (drop p S) # split_loop S e e)
      else [drop p S])"
  by pat_completeness auto
termination
proof (relation "measure (\<lambda>(S, p, q). length S - q)")
  show "wf (measure (\<lambda>(S, p, q). length S - q))"
    by simp
next
  fix S :: jsstring and p q :: nat
  assume "q < length S"
  then show "((S, p, q + 1), (S, p, q)) \<in> measure (\<lambda>(S, p, q). length S - q)"
    by simp
next
  fix S :: jsstring and p q e :: nat
  assume "q < length S" "split_match_at S q = Some e" "e = p"
  then show "((S, p, q + 1), (S, p, q)) \<in> measure (\<lambda>(S, p, q). length S - q)"
    by simp
next
  fix S :: jsstring and p q e :: nat
  assume q: "q < length S" and m: "split_match_at S q = Some e"
  from m have sp: "is_space (S ! q)"
    and e: "e = q + length (takeWhile is_space (drop q S))"
    by (auto simp: split_match_at_def split: if_splits)
  from q have "drop q S = S ! q # drop (Suc q) S"
    by (simp add: Cons_nth_drop_Suc)
  with sp e have "q < e" by simp
  with q show "((S, e, e), (S, p, q)) \<in> measure (\<lambda>(S, p, q). length S - q)"
    by simp
qed

declare split_loop.simps [simp del]

definition split_sentences :: "jsstring \<Rightarrow> jsstring list" where
  \<comment> \<open>\<open>S.split(/(?<=[.!?])\s+/)\<close>; on the empty string the pattern has no match and the
      result is the one piece \<open>""\<close>, which is what the loop gives\<close>
  "split_sentences S = split_loop S 0 0"

section \<open>Values\<close>

text \<open>
  The handlers read values whose type the platform does not fix: a query parameter, a
  field of the parsed body, a field of a stored document, the parsed answer of the
  summarization backend. \<open>JOther\<close> stands for every value that is none of the others
  (a number, a timestamp, a buffer), by the two things this code ever asks of it: its
  \<open>ToBoolean\<close> and its \<open>ToString\<close>. An object is the list of its own properties,
  each key once, in the order in which the object lists them.
\<close>

datatype jsvalue =
    JUndefined
  | JNull
  | JBoolean bool
  | JString jsstring
  | JArray "jsvalue list"
  | JObject "(jsstring \<times> jsvalue) list"
  | JOther bool jsstring

fun truthy :: "jsvalue \<Rightarrow> bool" where
  "truthy JUndefined = False"
| "truthy JNull = False"
| "truthy (JBoolean b) = b"
| "truthy (JString s) = (s \<noteq> [])"
| "truthy (JArray vs) = True"
| "truthy (JObject ps) = True"
| "truthy (JOther b s) = b"

definition js_or :: "jsvalue \<Rightarrow> jsvalue \<Rightarrow> jsvalue" where
  \<comment> \<open>\<open>a || b\<close>\<close>
  "js_or a b = (if truthy a then a else b)"

definition js_and :: "jsvalue \<Rightarrow> jsvalue \<Rightarrow> jsvalue" where
  \<comment> \<open>\<open>a && b\<close>\<close>
  "js_and a b = (if truthy a then b else a)"

datatype error =
    Error jsstring \<comment> \<open>\<open>throw new Error(message)\<close>\<close>
  | TypeError jsstring
      \<comment> \<open>raised by the language: a call of what is no function, a property of null, an
          object that has no string form\<close>
  | Rejected jsstring \<comment> \<open>the failure of an external service\<close>

fun join_comma :: "jsstring list \<Rightarrow> jsstring" where
  "join_comma [] = []"
| "join_comma [s] = s"
| "join_comma (s # t # ss) = s @ 0x2C # join_comma (t # ss)"

fun ToString :: "jsvalue \<Rightarrow> error + jsstring"
  and ToStrings :: "jsvalue list \<Rightarrow> error + jsstring list" where
  \<comment> \<open>\<open>String(v)\<close> and the interpolation of \<open>v\<close> in a template literal. An object takes
      the \<open>toString\<close> of its prototype unless it has a property of that name of its own:
      a stored or parsed value is no function, so the conversion then finds nothing to
      call and raises. An array joins the string forms of its elements, the first
      failure among them being its own\<close>
  "ToString JUndefined = Inr (js ''undefined'')"
| "ToString JNull = Inr (js ''null'')"
| "ToString (JBoolean b) = Inr (if b then js ''true'' else js ''false'')"
| "ToString (JString s) = Inr s"
| "ToString (JArray vs) =
     (case ToStrings vs of Inl err \<Rightarrow> Inl err | Inr ss \<Rightarrow> Inr (join_comma ss))"
| "ToString (JObject ps) =
     (if map_of ps (js ''toString'') = None then Inr (js ''[object Object]'')
      else Inl (TypeError (js ''Cannot convert object to primitive value'')))"
| "ToString (JOther b s) = Inr s"
| "ToStrings [] = Inr []"
| "ToStrings (v # vs) =
     (case (if v = JUndefined \<or> v = JNull then Inr [] else ToString v) of
        Inl err \<Rightarrow> Inl err
      | Inr s \<Rightarrow> (case ToStrings vs of Inl err \<Rightarrow> Inl err | Inr ss \<Rightarrow> Inr (s # ss)))"

definition member :: "jsvalue \<Rightarrow> jsstring \<Rightarrow> jsvalue" where
  \<comment> \<open>\<open>v.k\<close> for a \<open>v\<close> that is neither undefined nor null and a name \<open>k\<close> that no
      prototype defines (\<open>id\<close>, \<open>content\<close>, \<open>text\<close>, \<open>body\<close>, \<open>choices\<close>, \<open>message\<close>):
      only an object has such a property\<close>
  "member v k =
     (case v of
        JObject ps \<Rightarrow> (case map_of ps k of Some x \<Rightarrow> x | None \<Rightarrow> JUndefined)
      | _ \<Rightarrow> JUndefined)"

section \<open>The helpers\<close>

record request =
  headers :: "jsstring \<Rightarrow> jsstring option"
  query :: "jsvalue"
  body :: "jsvalue"

definition str_or :: "jsstring option \<Rightarrow> jsstring \<Rightarrow> jsstring" where
  \<comment> \<open>\<open>h || d\<close> for a header \<open>h\<close>, a string or undefined\<close>
  "str_or h d = (case h of None \<Rightarrow> d | Some s \<Rightarrow> if s \<noteq> [] then s else d)"

definition authHeader :: "request \<Rightarrow> jsstring" where
  "authHeader req =
     str_or (headers req (js ''authorization'')) (str_or (headers req (js ''Authorization'')) [])"

definition extractIdToken :: "request \<Rightarrow> error + jsstring" where
  "extractIdToken req =
     (case match_bearer (authHeader req) of
        None \<Rightarrow> Inl (Error (js ''Missing or invalid Authorization header''))
      | Some token \<Rightarrow> Inr token)"

definition nota_vacia :: jsstring where
  \<comment> \<open>the literal returned for an empty note; its accented letter is the code unit U+00ED\<close>
  "nota_vacia = js ''(Nota vac'' @ [0xED] @ js ''a)''"

definition ellipsis :: code_unit where
  \<comment> \<open>U+2026, the one code unit of the literal appended to a clipped sentence\<close>
  "ellipsis = 0x2026"

definition mockSummarize :: "jsvalue \<Rightarrow> error + jsstring" where
  "mockSummarize text =
     (case ToString (js_or text (JString [])) of
        Inl err \<Rightarrow> Inl err
      | Inr shown \<Rightarrow>
          let t = replace_spaces (trim shown) in
          if t = [] then Inr nota_vacia
          else
            let firstSentence =
                  (case split_sentences t of
                     [] \<Rightarrow> slice0 240 t
                   | s # _ \<Rightarrow> if s \<noteq> [] then s else slice0 240 t);
                clipped =
                  (if 240 < length firstSentence then slice0 240 firstSentence @ [ellipsis]
                   else firstSentence)
            in Inr (js ''Resumen: '' @ clipped))"

subsection \<open>How a request arrives\<close>

text \<open>
  The handlers do not see the header lines of the message but the object that Node's
  \<open>http\<close> module makes of them: every name in lower case and, for \<open>authorization\<close>,
  the first line kept when the name is repeated.
\<close>

definition ascii_lower :: "code_unit \<Rightarrow> code_unit" where
  "ascii_lower c = (if 0x41 \<le> c \<and> c \<le> 0x5A then c + 0x20 else c)"

definition incoming_headers :: "(jsstring \<times> jsstring) list \<Rightarrow> jsstring \<Rightarrow> jsstring option" where
  "incoming_headers raw = map_of (map (\<lambda>(n, v). (map ascii_lower n, v)) raw)"

definition incoming :: "(jsstring \<times> jsstring) list \<Rightarrow> jsvalue \<Rightarrow> jsvalue \<Rightarrow> request" where
  "incoming raw q b = \<lparr>headers = incoming_headers raw, query = q, body = b\<rparr>"

section \<open>The handlers\<close>

text \<open>
  The identity service, the document store, the summarization backend and the process
  environment are parameters of a handler: a \<open>world\<close> says what each of them answers.
  A handler returns the calls it made to them, in order, and either the response it sent
  or the exception it let escape. Calls of the logger are left out of the trace.
\<close>

record snapshot =
  exists :: bool
  data :: jsvalue \<comment> \<open>what \<open>noteSnap.data()\<close> returns\<close>

record document =
  doc_id :: jsstring
  doc_data :: "(jsstring \<times> jsvalue) list"

record fetch_request =
  url :: jsstring
  http_method :: jsstring
  fetch_headers :: "(jsstring \<times> jsstring) list"
  fetch_body :: jsvalue \<comment> \<open>the object handed to \<open>JSON.stringify\<close>\<close>

record fetch_response =
  http_status :: nat
  body_text :: "error + jsstring" \<comment> \<open>\<open>await resp.text()\<close>\<close>
  body_json :: "error + jsvalue" \<comment> \<open>\<open>await resp.json()\<close>\<close>

definition ok :: "fetch_response \<Rightarrow> bool" where
  \<comment> \<open>\<open>Response.ok\<close>: the status is in the range 200 to 299\<close>
  "ok r \<longleftrightarrow> 200 \<le> http_status r \<and> http_status r \<le> 299"

record world =
  env :: "jsstring \<Rightarrow> jsstring option" \<comment> \<open>\<open>process.env\<close>\<close>
  verifyIdToken :: "jsstring \<Rightarrow> error + jsstring" \<comment> \<open>the \<open>uid\<close> of the decoded token\<close>
  getNote :: "jsstring \<Rightarrow> jsstring \<Rightarrow> error + snapshot" \<comment> \<open>\<open>users/{uid}/notes/{id}\<close>\<close>
  getNotes :: "jsstring \<Rightarrow> error + document list" \<comment> \<open>\<open>users/{uid}/notes\<close>\<close>
  fetch :: "fetch_request \<Rightarrow> error + fetch_response"

datatype call =
    VerifyIdToken jsstring
  | GetNote jsstring jsstring
  | GetNotes jsstring
  | Fetch fetch_request

datatype sent = Send jsstring | Json jsvalue

record response =
  status :: nat
  sent :: sent

type_synonym outcome = "call list \<times> (error + response)"

definition respond :: "call list \<Rightarrow> nat \<Rightarrow> sent \<Rightarrow> outcome" where
  "respond calls code b = (calls, Inr \<lparr>status = code, sent = b\<rparr>)"

definition error_body :: "jsstring \<Rightarrow> sent" where
  \<comment> \<open>\<open>.json({error: message})\<close>\<close>
  "error_body message = Json (JObject [(js ''error'', JString message)])"

definition isEmulator :: "(jsstring \<Rightarrow> jsstring option) \<Rightarrow> bool" where
  \<comment> \<open>read when the module is loaded; nothing in the module writes the environment, so
      it is the one a request finds\<close>
  "isEmulator e \<longleftrightarrow>
     e (js ''FUNCTIONS_EMULATOR'') = Some (js ''true'') \<or>
     str_or (e (js ''FIREBASE_AUTH_EMULATOR_HOST'')) [] \<noteq> [] \<or>
     str_or (e (js ''FIRESTORE_EMULATOR_HOST'')) [] \<noteq> []"

definition index_value :: "jsstring \<Rightarrow> nat" where
  \<comment> \<open>the number that a string of decimal digits writes\<close>
  "index_value k = fold (\<lambda>c n. 10 * n + (unat c - 48)) k 0"

definition is_array_index :: "jsstring \<Rightarrow> bool" where
  \<comment> \<open>a property name that is an array index: the canonical decimal form of an integer
      from 0 to 4294967294\<close>
  "is_array_index k \<longleftrightarrow>
     k \<noteq> [] \<and> list_all (\<lambda>c. 0x30 \<le> c \<and> c \<le> 0x39) k \<and> (k = [0x30] \<or> 0x31 \<le> hd k) \<and>
     index_value k \<le> 4294967294"

definition own_order :: "(jsstring \<times> jsvalue) list \<Rightarrow> (jsstring \<times> jsvalue) list" where
  \<comment> \<open>the order in which an object lists the properties that were created in the given
      order: the array indices by their value, then the other names as they came\<close>
  "own_order ps =
     sort_key (\<lambda>p. index_value (fst p)) (filter (\<lambda>p. is_array_index (fst p)) ps) @
     filter (\<lambda>p. \<not> is_array_index (fst p)) ps"

definition note_of :: "document \<Rightarrow> jsvalue" where
  \<comment> \<open>\<open>{id: d.id, ...d.data()}\<close>: the property \<open>id\<close> is created first, a stored field
      named \<open>id\<close> replaces its value, every other field is created after it\<close>
  "note_of d =
     JObject (own_order
       (fold (\<lambda>(k, v). AList.update k v) (doc_data d) [(js ''id'', JString (doc_id d))]))"

definition getUserNotes :: "world \<Rightarrow> request \<Rightarrow> outcome" where
  "getUserNotes w req =
     (case extractIdToken req of
        Inl err \<Rightarrow> respond [] 401 (Send (js ''Unauthorized''))
      | Inr idToken \<Rightarrow>
          (case verifyIdToken w idToken of
             Inl err \<Rightarrow> respond [VerifyIdToken idToken] 401 (Send (js ''Unauthorized''))
           | Inr uid \<Rightarrow>
               (case getNotes w uid of
                  Inl err \<Rightarrow>
                    respond [VerifyIdToken idToken, GetNotes uid] 401 (Send (js ''Unauthorized''))
                | Inr docs \<Rightarrow>
                    respond [VerifyIdToken idToken, GetNotes uid] 200
                      (Json (JObject [(js ''notes'', JArray (map note_of docs))])))))"

definition noteId_of :: "request \<Rightarrow> error + jsstring" where
  \<comment> \<open>\<open>(request.query.id || (request.body && request.body.id) || "").trim()\<close>; only a
      string has a \<open>trim\<close> to call\<close>
  "noteId_of req =
     (case js_or (js_or (member (query req) (js ''id''))
                   (js_and (body req) (member (body req) (js ''id''))))
             (JString []) of
        JString s \<Rightarrow> Inr (trim s)
      | _ \<Rightarrow> Inl (TypeError (js ''trim is not a function'')))"

definition apiKey_of :: "(jsstring \<Rightarrow> jsstring option) \<Rightarrow> jsstring" where
  \<comment> \<open>\<open>process.env.OPENAI_API_KEY || process.env.openai_key || ""\<close>\<close>
  "apiKey_of e = str_or (e (js ''OPENAI_API_KEY'')) (str_or (e (js ''openai_key'')) [])"

definition note_text :: "snapshot \<Rightarrow> jsvalue" where
  \<comment> \<open>\<open>data = noteSnap.data() || {}\<close>, then
      \<open>data.content || data.text || data.body || ""\<close>\<close>
  "note_text snap =
     (let d = js_or (data snap) (JObject []) in
      js_or (js_or (js_or (member d (js ''content'')) (member d (js ''text'')))
               (member d (js ''body'')))
        (JString []))"

definition nullish :: "jsvalue \<Rightarrow> bool" where
  "nullish v \<longleftrightarrow> v = JUndefined \<or> v = JNull"

definition index0 :: "jsvalue \<Rightarrow> jsvalue" where
  \<comment> \<open>\<open>v[0]\<close> for a parsed JSON value that is not null\<close>
  "index0 v =
     (case v of
        JArray (x # _) \<Rightarrow> x
      | JString (c # _) \<Rightarrow> JString [c]
      | JObject ps \<Rightarrow> (case map_of ps (js ''0'') of Some x \<Rightarrow> x | None \<Rightarrow> JUndefined)
      | _ \<Rightarrow> JUndefined)"

definition summary_of :: "jsvalue \<Rightarrow> error + jsstring" where
  \<comment> \<open>\<open>aiJson.choices?.[0]?.message?.content?.trim() || "(No summary)"\<close>\<close>
  "summary_of aiJson =
     (if nullish aiJson then Inl (TypeError (js ''Cannot read properties of null''))
      else
        let choices = member aiJson (js ''choices'');
            first = (if nullish choices then JUndefined else index0 choices);
            message = (if nullish first then JUndefined else member first (js ''message''));
            content = (if nullish message then JUndefined else member message (js ''content''))
        in if nullish content then Inr (js ''(No summary)'')
           else
             (case content of
                JString s \<Rightarrow> Inr (if trim s \<noteq> [] then trim s else js ''(No summary)'')
              | _ \<Rightarrow> Inl (TypeError (js ''trim is not a function''))))"

definition prompt_of :: "jsstring \<Rightarrow> jsstring" where
  \<comment> \<open>the template literal of the prompt, for the string form of the text\<close>
  "prompt_of shown =
     js ''Summarize the following note in one sentence without adding new info. Note: '' @
     [0x22] @ shown @ [0x22]"

definition openai_request :: "jsstring \<Rightarrow> jsstring \<Rightarrow> fetch_request" where
  "openai_request apiKey prompt =
     \<lparr>url = js ''https://api.openai.com/v1/chat/completions'',
      http_method = js ''POST'',
      fetch_headers =
        [(js ''Authorization'', js ''Bearer '' @ apiKey),
         (js ''Content-Type'', js ''application/json'')],
      fetch_body =
        JObject
          [(js ''model'', JString (js ''gpt-4o-mini'')),
           (js ''messages'',
            JArray
              [JObject [(js ''role'', JString (js ''system'')),
                        (js ''content'', JString (js ''Agent that summarizes user notes.''))],
               JObject [(js ''role'', JString (js ''user'')),
                        (js ''content'', JString prompt)]]),
           (js ''temperature'', JOther True (js ''0.3'')),
           (js ''max_tokens'', JOther True (js ''60''))]\<rparr>"

definition summarizeNote :: "world \<Rightarrow> request \<Rightarrow> outcome" where
  "summarizeNote w req =
     (case noteId_of req of
        Inl err \<Rightarrow> ([], Inl err)
      | Inr noteId \<Rightarrow>
          if noteId = [] then respond [] 400 (error_body (js ''Missing note id''))
          else
            (case extractIdToken req of
               Inl err \<Rightarrow> respond [] 401 (error_body (js ''Unauthorized''))
             | Inr idToken \<Rightarrow>
                 (case verifyIdToken w idToken of
                    Inl err \<Rightarrow>
                      respond [VerifyIdToken idToken] 401 (error_body (js ''Unauthorized''))
                  | Inr uid \<Rightarrow>
                      let apiKey = apiKey_of (env w);
                          stored = [VerifyIdToken idToken, GetNote uid noteId]
                      in
                        (case getNote w uid noteId of
                           Inl err \<Rightarrow> respond stored 500 (error_body (js ''Internal error''))
                         | Inr noteSnap \<Rightarrow>
                             if \<not> exists noteSnap
                             then respond stored 404 (error_body (js ''Note not found''))
                             else
                               let text = note_text noteSnap in
                               if \<not> truthy text
                               then respond stored 400
                                 (error_body
                                   (js ''Note has no text field (expected content/text/body)''))
                               else if env w (js ''USE_MOCK_OPENAI'') = Some (js ''1'') \<or>
                                       (isEmulator (env w) \<and> apiKey = [])
                               then
                                 (case mockSummarize text of
                                    Inl err \<Rightarrow>
                                      respond stored 500 (error_body (js ''Internal error''))
                                  | Inr summary \<Rightarrow>
                                      respond stored 200
                                        (Json (JObject
                                          [(js ''id'', JString noteId),
                                           (js ''summary'', JString summary),
                                           (js ''mocked'', JBoolean True)])))
                               else if apiKey = []
                               then respond stored 500
                                 (error_body (js ''OpenAI API key not configured''))
                               else
                                 (case ToString text of
                                    Inl err \<Rightarrow>
                                      respond stored 500 (error_body (js ''Internal error''))
                                  | Inr shown \<Rightarrow>
                                      let prompt = prompt_of shown;
                                          asked = stored @ [Fetch (openai_request apiKey prompt)]
                                      in
                                        (case fetch w (openai_request apiKey prompt) of
                                           Inl err \<Rightarrow>
                                             respond asked 500
                                               (error_body (js ''Internal error''))
                                         | Inr openAiResp \<Rightarrow>
                                             if \<not> ok openAiResp
                                             then
                                               (case body_text openAiResp of
                                                  Inl err \<Rightarrow>
                                                    respond asked 500
                                                      (error_body (js ''Internal error''))
                                                | Inr errText \<Rightarrow>
                                                    respond asked 502
                                                      (Json (JObject
                                                        [(js ''error'',
                                                          JString (js ''Failed to summarize'')),
                                                         (js ''details'', JString errText)])))
                                             else
                                               (case body_json openAiResp of
                                                  Inl err \<Rightarrow>
                                                    respond asked 500
                                                      (error_body (js ''Internal error''))
                                                | Inr aiJson \<Rightarrow>
                                                    (case summary_of aiJson of
                                                       Inl err \<Rightarrow>
                                                         respond asked 500
                                                           (error_body (js ''Internal error''))
                                                     | Inr summary \<Rightarrow>
                                                         respond asked 200
                                                           (Json (JObject
                                                             [(js ''id'', JString noteId),
                                                              (js ''summary'',
                                                               JString summary)]))))))))))"

section \<open>The specification's words\<close>

text \<open>
  The definitions of this section follow the specification, not the source: they are
  what the source's functions are compared with.
\<close>

definition same_ignoring_case :: "jsstring \<Rightarrow> jsstring \<Rightarrow> bool" where
  "same_ignoring_case a b \<longleftrightarrow> map ascii_upper a = map ascii_upper b"

definition bearer_value :: "jsstring \<Rightarrow> jsstring \<Rightarrow> bool" where
  \<comment> \<open>the header value \<open>v\<close> is \<open>Bearer X\<close>: the prefix in any case, one space, and a
      token \<open>X\<close>; a field value of an HTTP message holds no line terminator\<close>
  "bearer_value v X \<longleftrightarrow>
     (\<exists>p. v = p @ X \<and> same_ignoring_case p (js ''Bearer '')) \<and> X \<noteq> [] \<and>
     list_all (\<lambda>c. \<not> is_line_terminator c) X"

definition missing_credential :: error where
  "missing_credential = Error (js ''Missing or invalid Authorization header'')"

function words_of :: "jsstring \<Rightarrow> jsstring list" where
  \<comment> \<open>the words of a text, in order\<close>
  "words_of s =
     (case dropWhile is_space s of
        [] \<Rightarrow> []
      | c # cs \<Rightarrow>
          takeWhile (\<lambda>x. \<not> is_space x) (c # cs) #
          words_of (dropWhile (\<lambda>x. \<not> is_space x) (c # cs)))"
  by pat_completeness auto
termination
proof (relation "measure length")
  show "wf (measure length)" by simp
next
  fix s :: jsstring and c cs
  assume d: "dropWhile is_space s = c # cs"
  have "length (dropWhile (\<lambda>x. \<not> is_space x) (c # cs)) \<le> length (c # cs)"
    by (rule length_dropWhile_le)
  moreover have "dropWhile is_space s \<noteq> []" using d by simp
  then have "\<not> is_space (hd (dropWhile is_space s))" by (rule hd_dropWhile)
  with d have "\<not> is_space c" by simp
  then have "dropWhile (\<lambda>x. \<not> is_space x) (c # cs) = dropWhile (\<lambda>x. \<not> is_space x) cs"
    by simp
  moreover have "length (dropWhile (\<lambda>x. \<not> is_space x) cs) \<le> length cs"
    by (rule length_dropWhile_le)
  moreover have "length (c # cs) \<le> length s"
    using length_dropWhile_le [of is_space s] d by simp
  ultimately show "(dropWhile (\<lambda>x. \<not> is_space x) (c # cs), s) \<in> measure length"
    by simp
qed

declare words_of.simps [simp del]

fun join_space :: "jsstring list \<Rightarrow> jsstring" where
  "join_space [] = []"
| "join_space [w] = w"
| "join_space (w # v # ws) = w @ 0x20 # join_space (v # ws)"

definition normalized :: "jsstring \<Rightarrow> jsstring" where
  \<comment> \<open>step 1: the words of the text, which are its maximal runs of characters that are
      no whitespace, with a single space between one and the next\<close>
  "normalized s = join_space (words_of s)"

definition first_split_point :: "jsstring \<Rightarrow> nat option" where
  \<comment> \<open>the first index that holds \<open>.\<close>, \<open>!\<close> or \<open>?\<close> and is followed by whitespace\<close>
  "first_split_point t =
     find (\<lambda>i. is_sentence_end (t ! i) \<and> is_space (t ! Suc i)) [0..<length t - 1]"

definition first_segment :: "jsstring \<Rightarrow> jsstring" where
  \<comment> \<open>the text up to and with the punctuation of the first split point; all of it when
      there is none\<close>
  "first_segment t = (case first_split_point t of None \<Rightarrow> t | Some i \<Rightarrow> take (Suc i) t)"

definition clip :: "jsstring \<Rightarrow> jsstring" where
  \<comment> \<open>step 4: at most 240 code units, and the ellipsis when something was cut\<close>
  "clip seg = (if 240 < length seg then take 240 seg @ [ellipsis] else seg)"

definition mockSummarize_spec :: "jsstring \<Rightarrow> jsstring" where
  \<comment> \<open>MockSummarizer as steps 1 to 5 of the specification word it: without a split point
      the segment is the first 240 characters of the normalized text\<close>
  "mockSummarize_spec s =
     (let t = normalized s in
      if t = [] then nota_vacia
      else
        let segment =
              (case first_split_point t of None \<Rightarrow> take 240 t | Some i \<Rightarrow> take (Suc i) t)
        in js ''Resumen: '' @ clip segment)"

definition header_named :: "jsstring \<Rightarrow> (jsstring \<times> jsstring) list \<Rightarrow> jsstring option" where
  \<comment> \<open>the value of the first header line whose name is \<open>h\<close> in any case\<close>
  "header_named h raw =
     map_option snd (find (\<lambda>(n, v). map ascii_lower n = map ascii_lower h) raw)"

definition fetches :: "outcome \<Rightarrow> fetch_request list" where
  \<comment> \<open>the calls of the summarization backend among the calls a handler made\<close>
  "fetches out = concat (map (\<lambda>c. case c of Fetch r \<Rightarrow> [r] | _ \<Rightarrow> []) (fst out))"

definition mock_body :: "jsstring \<Rightarrow> jsstring \<Rightarrow> jsvalue" where
  \<comment> \<open>\<open>{id, summary, mocked: true}\<close>\<close>
  "mock_body noteId summary =
     JObject [(js ''id'', JString noteId), (js ''summary'', JString summary),
              (js ''mocked'', JBoolean True)]"

definition live_body :: "jsstring \<Rightarrow> jsstring \<Rightarrow> jsvalue" where
  \<comment> \<open>\<open>{id, summary}\<close>\<close>
  "live_body noteId summary =
     JObject [(js ''id'', JString noteId), (js ''summary'', JString summary)]"

definition failure_body :: "jsstring \<Rightarrow> jsvalue" where
  \<comment> \<open>\<open>{error: "Failed to summarize", details: d}\<close>\<close>
  "failure_body d =
     JObject [(js ''error'', JString (js ''Failed to summarize'')), (js ''details'', JString d)]"

definition missing_id :: response where
  "missing_id = \<lparr>status = 400, sent = error_body (js ''Missing note id'')\<rparr>"

definition no_text_field :: response where
  "no_text_field =
     \<lparr>status = 400,
      sent = error_body (js ''Note has no text field (expected content/text/body)'')\<rparr>"

definition unauthorized :: response where
  \<comment> \<open>what ListNotesHandler sends: the plain text\<close>
  "unauthorized = \<lparr>status = 401, sent = Send (js ''Unauthorized'')\<rparr>"

definition unauthorized_json :: response where
  \<comment> \<open>what SummarizeNoteHandler sends: \<open>{error: "Unauthorized"}\<close>\<close>
  "unauthorized_json = \<lparr>status = 401, sent = error_body (js ''Unauthorized'')\<rparr>"

definition text_fields :: "snapshot \<Rightarrow> jsvalue list" where
  \<comment> \<open>the three fields, in the order of their priority\<close>
  "text_fields snap =
     [member (data snap) (js ''content''), member (data snap) (js ''text''),
      member (data snap) (js ''body'')]"

definition note_text_claimed :: "snapshot \<Rightarrow> jsvalue" where
  \<comment> \<open>first present wins, as C4 is worded: a field is present when the document has
      it, whatever it holds\<close>
  "note_text_claimed snap =
     (case find (\<lambda>v. v \<noteq> JUndefined) (text_fields snap) of
        None \<Rightarrow> JString [] | Some v \<Rightarrow> v)"

definition noteId_claimed :: "request \<Rightarrow> jsvalue" where
  \<comment> \<open>as C5 is worded: the query parameter, and the field of the body if the query
      parameter is absent\<close>
  "noteId_claimed req =
     (if member (query req) (js ''id'') \<noteq> JUndefined then member (query req) (js ''id'')
      else member (body req) (js ''id''))"

section \<open>A world and requests to run the handlers on\<close>

definition hello_note :: snapshot where
  "hello_note =
     \<lparr>exists = True,
      data = JObject [(js ''content'', JString (js ''Hello world. Second sentence.''))]\<rparr>"

definition sample_world ::
  "(jsstring \<Rightarrow> jsstring option) \<Rightarrow> snapshot \<Rightarrow> (error + fetch_response) \<Rightarrow> world" where
  \<comment> \<open>the token \<open>tok\<close> is the one of user \<open>u1\<close>, whose note \<open>n1\<close> is the given one and
      who has no other; the backend answers every request alike\<close>
  "sample_world e note answer =
     \<lparr>env = e,
      verifyIdToken =
        (\<lambda>t. if t = js ''tok'' then Inr (js ''u1'') else Inl (Rejected (js ''invalid token''))),
      getNote =
        (\<lambda>u n. if u = js ''u1'' \<and> n = js ''n1'' then Inr note
               else Inr \<lparr>exists = False, data = JUndefined\<rparr>),
      getNotes = (\<lambda>u. Inr []),
      fetch = (\<lambda>r. answer)\<rparr>"

definition body_note :: snapshot where
  \<comment> \<open>a note whose text is under \<open>body\<close>, its \<open>text\<close> being null\<close>
  "body_note =
     \<lparr>exists = True,
      data = JObject [(js ''text'', JNull),
                      (js ''body'', JString (js ''Hello world. Second sentence.''))]\<rparr>"

definition blank_note :: snapshot where
  \<comment> \<open>a note with an empty \<open>content\<close> and nothing else\<close>
  "blank_note = \<lparr>exists = True, data = JObject [(js ''content'', JString [])]\<rparr>"

definition empty_content_note :: snapshot where
  \<comment> \<open>a note with an empty \<open>content\<close> and a \<open>text\<close>\<close>
  "empty_content_note =
     \<lparr>exists = True,
      data = JObject [(js ''content'', JString []),
                      (js ''text'', JString (js ''Hello world. Second sentence.''))]\<rparr>"

definition unprintable_note :: snapshot where
  \<comment> \<open>a note whose \<open>content\<close> is the map \<open>{toString: "x"}\<close>\<close>
  "unprintable_note =
     \<lparr>exists = True,
      data = JObject [(js ''content'', JObject [(js ''toString'', JString (js ''x''))])]\<rparr>"

definition failing_store :: "world \<Rightarrow> world" where
  "failing_store w = w\<lparr>getNotes := (\<lambda>u. Inl (Rejected (js ''store unavailable'')))\<rparr>"

definition bearer_request :: "jsstring \<Rightarrow> request" where
  \<comment> \<open>a request whose only header is \<open>authorization: v\<close>\<close>
  "bearer_request v =
     \<lparr>headers = (\<lambda>k. if k = js ''authorization'' then Some v else None),
      query = JObject [], body = JUndefined\<rparr>"

definition sample_request :: "jsstring \<Rightarrow> jsvalue \<Rightarrow> jsvalue \<Rightarrow> request" where
  \<comment> \<open>a request with the header \<open>authorization: Bearer\<close> and the given token\<close>
  "sample_request token q b =
     \<lparr>headers = (\<lambda>k. if k = js ''authorization'' then Some (js ''Bearer '' @ token) else None),
      query = q, body = b\<rparr>"

definition anonymous_request :: "jsvalue \<Rightarrow> jsvalue \<Rightarrow> request" where
  \<comment> \<open>a request with no header\<close>
  "anonymous_request q b = \<lparr>headers = (\<lambda>k. None), query = q, body = b\<rparr>"

definition id_object :: "jsstring \<Rightarrow> jsvalue" where
  \<comment> \<open>\<open>{id: s}\<close>, as a query or as a parsed body\<close>
  "id_object s = JObject [(js ''id'', JString s)]"

definition mock_env :: "jsstring \<Rightarrow> jsstring option" where
  "mock_env = (\<lambda>k. if k = js ''USE_MOCK_OPENAI'' then Some (js ''1'') else None)"

definition emulator_env :: "jsstring \<Rightarrow> jsstring option" where
  "emulator_env = (\<lambda>k. if k = js ''FUNCTIONS_EMULATOR'' then Some (js ''true'') else None)"

definition live_env :: "jsstring \<Rightarrow> jsstring option" where
  "live_env = (\<lambda>k. if k = js ''OPENAI_API_KEY'' then Some (js ''sk-1'') else None)"

definition ok_answer :: fetch_response where
  "ok_answer =
     \<lparr>http_status = 200,
      body_text = Inr (js ''{}''),
      body_json =
        Inr (JObject
          [(js ''choices'',
            JArray [JObject [(js ''message'',
              JObject [(js ''content'', JString (js '' Short. ''))])]])])\<rparr>"

definition failed_answer :: fetch_response where
  "failed_answer =
     \<lparr>http_status = 429,
      body_text = Inr (js ''rate limited''),
      body_json = Inl (Rejected (js ''not JSON''))\<rparr>"

section \<open>CredentialExtractor\<close>

lemma match_literal_ci_Some:
  "match_literal_ci ps s = Some rest \<longleftrightarrow>
     (\<exists>p. s = p @ rest \<and> map ascii_upper p = map ascii_upper ps)"
proof (induction ps s rule: match_literal_ci.induct)
  case (1 s)
  then show ?case by simp
next
  case (2 p ps)
  then show ?case by simp
next
  case (3 p ps c cs)
  show ?case
  proof (cases "ascii_upper c = ascii_upper p")
    case True
    have "(\<exists>q. c # cs = q @ rest \<and> map ascii_upper q = map ascii_upper (p # ps)) \<longleftrightarrow>
          (\<exists>q'. cs = q' @ rest \<and> map ascii_upper q' = map ascii_upper ps)"
    proof
      assume "\<exists>q. c # cs = q @ rest \<and> map ascii_upper q = map ascii_upper (p # ps)"
      then obtain q where q: "c # cs = q @ rest" "map ascii_upper q = map ascii_upper (p # ps)"
        by blast
      from q(2) obtain x q' where "q = x # q'" by (cases q) auto
      with q show "\<exists>q'. cs = q' @ rest \<and> map ascii_upper q' = map ascii_upper ps"
        by auto
    next
      assume "\<exists>q'. cs = q' @ rest \<and> map ascii_upper q' = map ascii_upper ps"
      then obtain q' where "cs = q' @ rest" "map ascii_upper q' = map ascii_upper ps"
        by blast
      with True
      have "c # cs = (c # q') @ rest \<and> map ascii_upper (c # q') = map ascii_upper (p # ps)"
        by simp
      then show "\<exists>q. c # cs = q @ rest \<and> map ascii_upper q = map ascii_upper (p # ps)"
        by blast
    qed
    with True 3 show ?thesis by simp
  next
    case False
    have "\<not> (\<exists>q. c # cs = q @ rest \<and> map ascii_upper q = map ascii_upper (p # ps))"
    proof
      assume "\<exists>q. c # cs = q @ rest \<and> map ascii_upper q = map ascii_upper (p # ps)"
      then obtain q where q: "c # cs = q @ rest" "map ascii_upper q = map ascii_upper (p # ps)"
        by blast
      from q(2) obtain x q' where "q = x # q'" by (cases q) auto
      with q False show False by auto
    qed
    with False show ?thesis by simp
  qed
qed

lemma match_bearer_Some:
  "match_bearer s = Some X \<longleftrightarrow>
     (\<exists>p. s = p @ X \<and> map ascii_upper p = map ascii_upper (js ''Bearer '')) \<and>
     X \<noteq> [] \<and> (\<forall>c\<in>set X. \<not> is_line_terminator c)"
proof -
  have "match_bearer s = Some X \<longleftrightarrow>
      match_literal_ci (js ''Bearer '') s = Some X \<and> X \<noteq> [] \<and>
      (\<forall>c\<in>set X. \<not> is_line_terminator c)"
    by (cases "match_literal_ci (js ''Bearer '') s")
      (auto simp: match_bearer_def list_all_iff)
  then show ?thesis
    by (simp only: match_literal_ci_Some)
qed

lemma extractIdToken_Inr: "extractIdToken req = Inr X \<longleftrightarrow> bearer_value (authHeader req) X"
  unfolding bearer_value_def same_ignoring_case_def list_all_iff match_bearer_Some [symmetric]
  by (simp add: extractIdToken_def split: option.splits)

lemma extractIdToken_cases:
  "extractIdToken req = Inl missing_credential \<or> (\<exists>X. extractIdToken req = Inr X)"
  by (simp add: extractIdToken_def missing_credential_def split: option.splits)

lemma bearer_prefix_length: "same_ignoring_case p (js ''Bearer '') \<Longrightarrow> length p = 7"
proof -
  assume "same_ignoring_case p (js ''Bearer '')"
  then have "length (map ascii_upper p) = length (map ascii_upper (js ''Bearer ''))"
    by (simp add: same_ignoring_case_def)
  then show ?thesis by (simp add: js_def)
qed

lemma authHeader_absent:
  "headers req (js ''authorization'') = None \<Longrightarrow> headers req (js ''Authorization'') = None \<Longrightarrow>
     authHeader req = []"
  by (simp add: authHeader_def str_or_def)

lemma authHeader_bearer_request: "v \<noteq> [] \<Longrightarrow> authHeader (bearer_request v) = v"
  by (simp add: authHeader_def bearer_request_def str_or_def)

lemma bearer_value_abc: "bearer_value (js ''Bearer abc'') (js ''abc'')"
  unfolding bearer_value_def
proof (intro conjI exI)
  show "js ''Bearer abc'' = js ''Bearer '' @ js ''abc''"
    by (simp add: js_def)
qed (simp_all add: same_ignoring_case_def js_def is_line_terminator_def)

lemma ascii_lower_not_A: "ascii_lower c \<noteq> 0x41"
proof -
  have "c + 0x20 \<noteq> 0x41" if "0x41 \<le> c" "c \<le> 0x5A"
    using that by unat_arith
  then show ?thesis
    by (auto simp: ascii_lower_def)
qed

lemma lowered_not_capital: "map ascii_lower n \<noteq> js ''Authorization''"
proof (cases n)
  case Nil
  then show ?thesis by (simp add: js_def)
next
  case (Cons c cs)
  then show ?thesis
    using ascii_lower_not_A [of c] by (auto simp: js_def)
qed

lemma incoming_headers_capital: "incoming_headers raw (js ''Authorization'') = None"
  unfolding incoming_headers_def
  by (induction raw)
    (simp_all add: lowered_not_capital lowered_not_capital [symmetric] split_beta)

lemma incoming_headers_find:
  "map ascii_lower h = h \<Longrightarrow> incoming_headers raw h = header_named h raw"
  by (induction raw) (auto simp: incoming_headers_def header_named_def)

lemma authorization_lower: "map ascii_lower (js ''authorization'') = js ''authorization''"
  by (simp add: js_def ascii_lower_def)

lemma authHeader_incoming:
  "authHeader (incoming raw q b) =
     (case header_named (js ''authorization'') raw of None \<Rightarrow> [] | Some v \<Rightarrow> v)"
  by (simp add: authHeader_def incoming_def incoming_headers_capital str_or_def
      incoming_headers_find authorization_lower split: option.splits)

lemma extractIdToken_empty: "authHeader req = [] \<Longrightarrow> extractIdToken req = Inl missing_credential"
  by (simp add: extractIdToken_def match_bearer_def missing_credential_def js_def)

text \<open>
  C3. The value the extractor reads is the one stored under \<open>authorization\<close> (and,
  failing that, under \<open>Authorization\<close>). When that value is \<open>Bearer X\<close>, the prefix in
  any case, the extractor returns exactly \<open>X\<close>, inner whitespace included; when the value
  is of no such form, and in particular when the header is absent, it fails with the
  missing-credential error. On a request as it arrives, the value read is the one of the
  header named \<open>authorization\<close> in any case. The extractor is a function of the request
  alone: it calls nothing and changes nothing.
\<close>

theorem extractIdToken_bearer:
  "(bearer_value (authHeader req) X \<longrightarrow> extractIdToken req = Inr X) \<and>
   ((\<nexists>Y. bearer_value (authHeader req) Y) \<longrightarrow> extractIdToken req = Inl missing_credential) \<and>
   (headers req (js ''authorization'') = None \<and> headers req (js ''Authorization'') = None \<longrightarrow>
      extractIdToken req = Inl missing_credential) \<and>
   (header_named (js ''authorization'') raw = Some v \<and> bearer_value v X \<longrightarrow>
      extractIdToken (incoming raw q b) = Inr X) \<and>
   (header_named (js ''authorization'') raw = None \<longrightarrow>
      extractIdToken (incoming raw q b) = Inl missing_credential)"
proof (intro conjI impI)
  assume "bearer_value (authHeader req) X"
  then show "extractIdToken req = Inr X"
    by (simp add: extractIdToken_Inr)
next
  assume "\<nexists>Y. bearer_value (authHeader req) Y"
  then have "extractIdToken req \<noteq> Inr Y" for Y
    by (simp add: extractIdToken_Inr)
  with extractIdToken_cases [of req] show "extractIdToken req = Inl missing_credential"
    by blast
next
  assume "headers req (js ''authorization'') = None \<and> headers req (js ''Authorization'') = None"
  then have "authHeader req = []"
    by (simp add: authHeader_absent)
  then show "extractIdToken req = Inl missing_credential"
    by (rule extractIdToken_empty)
next
  assume "header_named (js ''authorization'') raw = Some v \<and> bearer_value v X"
  then show "extractIdToken (incoming raw q b) = Inr X"
    by (simp add: extractIdToken_Inr authHeader_incoming)
next
  assume "header_named (js ''authorization'') raw = None"
  then have "authHeader (incoming raw q b) = []"
    by (simp add: authHeader_incoming)
  then show "extractIdToken (incoming raw q b) = Inl missing_credential"
    by (rule extractIdToken_empty)
qed

theorem extractIdToken_bearer_witness:
  "extractIdToken (bearer_request (js ''Bearer abc'')) = Inr (js ''abc'') \<and>
   extractIdToken (bearer_request (js ''bEARER a b'')) = Inr (js ''a b'') \<and>
   extractIdToken (bearer_request (js ''Basic abc'')) = Inl missing_credential \<and>
   extractIdToken \<lparr>headers = (\<lambda>k. None), query = JObject [], body = JUndefined\<rparr> =
     Inl missing_credential \<and>
   extractIdToken
     (incoming [(js ''Host'', js ''h''), (js ''AUTHORIZATION'', js ''Bearer abc'')]
        (JObject []) JUndefined) = Inr (js ''abc'') \<and>
   extractIdToken (incoming [(js ''Host'', js ''h'')] (JObject []) JUndefined) =
     Inl missing_credential"
proof -
  let ?none = "\<lparr>headers = (\<lambda>k. None), query = JObject [], body = JUndefined\<rparr>"
  let ?raw = "[(js ''Host'', js ''h''), (js ''AUTHORIZATION'', js ''Bearer abc'')]"
  have a: "bearer_value (authHeader (bearer_request (js ''Bearer abc''))) (js ''abc'')"
  proof -
    have v: "authHeader (bearer_request (js ''Bearer abc'')) = js ''Bearer abc''"
      by (rule authHeader_bearer_request) (simp add: js_def)
    show ?thesis
      unfolding v by (rule bearer_value_abc)
  qed
  have b: "bearer_value (authHeader (bearer_request (js ''bEARER a b''))) (js ''a b'')"
    unfolding bearer_value_def
  proof (intro conjI exI)
    show "authHeader (bearer_request (js ''bEARER a b'')) = js ''bEARER '' @ js ''a b''"
      by (simp add: authHeader_bearer_request js_def)
  qed (simp_all add: same_ignoring_case_def js_def is_line_terminator_def ascii_upper_def)
  have c: "\<nexists>Y. bearer_value (authHeader (bearer_request (js ''Basic abc''))) Y"
  proof
    assume "\<exists>Y. bearer_value (authHeader (bearer_request (js ''Basic abc''))) Y"
    then obtain Y p where v: "js ''Basic abc'' = p @ Y"
      and p: "same_ignoring_case p (js ''Bearer '')"
      by (auto simp: bearer_value_def authHeader_bearer_request js_def)
    from p have "length p = 7" by (rule bearer_prefix_length)
    with v have "p = take 7 (js ''Basic abc'')" by (metis append_eq_conv_conj)
    then have "p = js ''Basic a''" by (simp add: js_def)
    with p show False by (simp add: same_ignoring_case_def js_def ascii_upper_def)
  qed
  have d: "headers ?none (js ''authorization'') = None \<and>
      headers ?none (js ''Authorization'') = None"
    by simp
  have e: "header_named (js ''authorization'') ?raw = Some (js ''Bearer abc'') \<and>
      bearer_value (js ''Bearer abc'') (js ''abc'')"
    by (simp add: bearer_value_abc) (simp add: header_named_def js_def ascii_lower_def)
  have f: "header_named (js ''authorization'') [(js ''Host'', js ''h'')] = None"
    by (simp add: header_named_def js_def ascii_lower_def)
  from extractIdToken_bearer [of "bearer_request (js ''Bearer abc'')" "js ''abc''"] a
  have 1: "extractIdToken (bearer_request (js ''Bearer abc'')) = Inr (js ''abc'')"
    by (rule conjunct1 [THEN mp])
  from extractIdToken_bearer [of "bearer_request (js ''bEARER a b'')" "js ''a b''"] b
  have 2: "extractIdToken (bearer_request (js ''bEARER a b'')) = Inr (js ''a b'')"
    by (rule conjunct1 [THEN mp])
  from extractIdToken_bearer [of "bearer_request (js ''Basic abc'')" "[]" "[]" "[]"] c
  have 3: "extractIdToken (bearer_request (js ''Basic abc'')) = Inl missing_credential"
    by (rule conjunct2 [THEN conjunct1, THEN mp])
  from extractIdToken_bearer [of ?none "[]" "[]" "[]"] d
  have 4: "extractIdToken ?none = Inl missing_credential"
    by (rule conjunct2 [THEN conjunct2, THEN conjunct1, THEN mp])
  from extractIdToken_bearer
    [of ?none "js ''abc''" ?raw "js ''Bearer abc''" "JObject []" JUndefined] e
  have 5: "extractIdToken (incoming ?raw (JObject []) JUndefined) = Inr (js ''abc'')"
    by (rule conjunct2 [THEN conjunct2, THEN conjunct2, THEN conjunct1, THEN mp])
  from extractIdToken_bearer
    [of ?none "[]" "[(js ''Host'', js ''h'')]" "[]" "JObject []" JUndefined] f
  have 6: "extractIdToken (incoming [(js ''Host'', js ''h'')] (JObject []) JUndefined) =
      Inl missing_credential"
    by (rule conjunct2 [THEN conjunct2, THEN conjunct2, THEN conjunct2, THEN mp])
  from 1 2 3 4 5 6 show ?thesis
    by (intro conjI)
qed

text \<open>
  C9. A token the extractor returns is never empty: \<open>(.+)\<close> needs a character after the
  space that follows the prefix, so the values \<open>Bearer\<close> and \<open>Bearer\<close> with its space
  alone are refused.
\<close>

theorem extractIdToken_nonempty:
  "(extractIdToken req = Inr token \<longrightarrow> token \<noteq> []) \<and>
   (authHeader req = js ''Bearer '' \<or> authHeader req = js ''Bearer'' \<longrightarrow>
      extractIdToken req = Inl missing_credential)"
proof (intro conjI impI)
  assume "extractIdToken req = Inr token"
  then show "token \<noteq> []"
    by (simp add: extractIdToken_Inr bearer_value_def)
next
  assume h: "authHeader req = js ''Bearer '' \<or> authHeader req = js ''Bearer''"
  have "extractIdToken req \<noteq> Inr X" for X
  proof
    assume "extractIdToken req = Inr X"
    then obtain p where p: "authHeader req = p @ X" "same_ignoring_case p (js ''Bearer '')"
      and X: "X \<noteq> []"
      by (auto simp: extractIdToken_Inr bearer_value_def)
    from p(2) have "length p = 7" by (rule bearer_prefix_length)
    with p(1) X have "7 < length (authHeader req)" by (cases X) auto
    with h show False by (auto simp: js_def)
  qed
  with extractIdToken_cases [of req] show "extractIdToken req = Inl missing_credential"
    by blast
qed

theorem extractIdToken_nonempty_witness:
  "extractIdToken (bearer_request (js ''Bearer x'')) = Inr (js ''x'') \<and> js ''x'' \<noteq> [] \<and>
   extractIdToken (bearer_request (js ''Bearer '')) = Inl missing_credential \<and>
   extractIdToken (bearer_request (js ''Bearer'')) = Inl missing_credential"
proof -
  have a: "extractIdToken (bearer_request (js ''Bearer x'')) = Inr (js ''x'')"
    by (simp add: extractIdToken_def authHeader_bearer_request match_bearer_def js_def
        ascii_upper_def is_line_terminator_def)
  have b: "authHeader (bearer_request (js ''Bearer '')) = js ''Bearer ''"
    by (simp add: authHeader_bearer_request js_def)
  have c: "authHeader (bearer_request (js ''Bearer'')) = js ''Bearer''"
    by (simp add: authHeader_bearer_request js_def)
  show ?thesis
    using extractIdToken_nonempty [of "bearer_request (js ''Bearer x'')" "js ''x''"] a
      extractIdToken_nonempty [of "bearer_request (js ''Bearer '')"] b
      extractIdToken_nonempty [of "bearer_request (js ''Bearer'')"] c
    by blast
qed

section \<open>MockSummarizer\<close>

subsection \<open>Normalization\<close>

lemma dropWhile_none: "\<forall>c\<in>set s. \<not> P c \<Longrightarrow> dropWhile P s = s"
  by (cases s) simp_all

lemma dropWhile_all_iff: "(\<forall>x\<in>set (dropWhile P s). P x) \<longleftrightarrow> (\<forall>x\<in>set s. P x)"
proof
  assume a: "\<forall>x\<in>set (dropWhile P s). P x"
  have "dropWhile P s = []"
  proof (rule ccontr)
    assume n: "dropWhile P s \<noteq> []"
    then have "\<not> P (hd (dropWhile P s))" by (rule hd_dropWhile)
    moreover from n have "hd (dropWhile P s) \<in> set (dropWhile P s)" by simp
    ultimately show False using a by blast
  qed
  then show "\<forall>x\<in>set s. P x"
    by (simp only: dropWhile_eq_Nil_conv)
next
  assume "\<forall>x\<in>set s. P x"
  then show "\<forall>x\<in>set (dropWhile P s). P x"
    by (auto dest: set_dropWhileD)
qed

lemma trim_Nil: "trim s = [] \<longleftrightarrow> (\<forall>c\<in>set s. is_space c)"
  by (simp add: trim_def dropWhile_all_iff)

lemma replace_spaces_Nil: "replace_spaces s = [] \<longleftrightarrow> s = []"
  by (cases s) simp_all

lemma normalized_Nil: "replace_spaces (trim s) = [] \<longleftrightarrow> (\<forall>c\<in>set s. is_space c)"
  by (simp add: replace_spaces_Nil trim_Nil)

lemma no_space_trim: "\<forall>c\<in>set s. \<not> is_space c \<Longrightarrow> trim s = s"
proof -
  assume a: "\<forall>c\<in>set s. \<not> is_space c"
  then have "\<forall>c\<in>set (rev s). \<not> is_space c" by simp
  then have "dropWhile is_space (rev s) = rev s" by (rule dropWhile_none)
  with a show ?thesis by (simp add: trim_def dropWhile_none)
qed

lemma no_space_replace_spaces: "\<forall>c\<in>set s. \<not> is_space c \<Longrightarrow> replace_spaces s = s"
  by (induction s) simp_all

lemma trim_rtrim: "trim s = rtrim (dropWhile is_space s)"
  by (simp add: trim_def rtrim_def)

lemma rtrim_append:
  "rtrim (a @ b) = (if \<forall>c\<in>set b. is_space c then rtrim a else a @ rtrim b)"
  by (simp add: rtrim_def dropWhile_append)

lemma rtrim_Cons_nonspace: "\<not> is_space h \<Longrightarrow> \<exists>t'. rtrim (h # t) = h # t'"
  using rtrim_append [of "[h]" t] by (auto simp: rtrim_def)

lemma replace_spaces_word:
  "\<forall>c\<in>set w. \<not> is_space c \<Longrightarrow> replace_spaces (w @ x) = w @ replace_spaces x"
  by (induction w) simp_all

lemma replace_spaces_run:
  "r \<noteq> [] \<Longrightarrow> \<forall>c\<in>set r. is_space c \<Longrightarrow>
     replace_spaces (r @ x) = 0x20 # replace_spaces (dropWhile is_space x)"
  by (cases r) simp_all

lemma words_of_Nil:
  assumes "dropWhile is_space s = []"
  shows "words_of s = []"
  by (subst words_of.simps) (simp only: assms list.case)

lemma words_of_Cons:
  assumes "dropWhile is_space s = c # cs"
  shows "words_of s = takeWhile (\<lambda>x. \<not> is_space x) (c # cs) #
       words_of (dropWhile (\<lambda>x. \<not> is_space x) (c # cs))"
  by (subst words_of.simps) (simp only: assms list.case)

lemma rtrim_word: "w \<noteq> [] \<Longrightarrow> \<forall>x\<in>set w. \<not> is_space x \<Longrightarrow> rtrim w = w"
proof -
  assume wne: "w \<noteq> []" and w: "\<forall>x\<in>set w. \<not> is_space x"
  then have "\<forall>x\<in>set (rev w). \<not> is_space x" by simp
  then have "dropWhile is_space (rev w) = rev w" by (rule dropWhile_none)
  then show ?thesis by (simp add: rtrim_def)
qed

lemma normalize_step:
  fixes s' :: jsstring
  assumes ne: "s' \<noteq> []" and hd: "\<not> is_space (hd s')"
    and w_def: "w = takeWhile (\<lambda>x. \<not> is_space x) s'"
    and r_def: "r = dropWhile (\<lambda>x. \<not> is_space x) s'"
  shows "replace_spaces (rtrim s') =
     (if \<forall>x\<in>set r. is_space x then w else w @ 0x20 # replace_spaces (trim r))"
proof -
  have s': "s' = w @ r" by (simp add: w_def r_def)
  have w: "\<forall>x\<in>set w. \<not> is_space x"
    unfolding w_def by (auto dest: set_takeWhileD)
  have wne: "w \<noteq> []"
    unfolding w_def using ne hd by (simp add: takeWhile_eq_Nil_iff)
  show ?thesis
  proof (cases "\<forall>x\<in>set r. is_space x")
    case True
    then have "rtrim (w @ r) = rtrim w"
      by (simp add: rtrim_append)
    then have "rtrim s' = w"
      by (simp only: s' [symmetric] rtrim_word [OF wne w])
    with True w show "replace_spaces (rtrim s') =
        (if \<forall>x\<in>set r. is_space x then w else w @ 0x20 # replace_spaces (trim r))"
      by (simp add: no_space_replace_spaces)
  next
    case False
    define r' where "r' = dropWhile is_space r"
    define run where "run = takeWhile is_space r"
    have r: "r = run @ r'" by (simp add: run_def r'_def)
    from False have r'ne: "r' \<noteq> []"
      unfolding r'_def by (simp only: dropWhile_eq_Nil_conv not_False_eq_True)
    then have "\<not> is_space (hd r')"
      unfolding r'_def by (rule hd_dropWhile)
    with r'ne obtain h t where r': "r' = h # t" and h: "\<not> is_space h"
      by (cases r') auto
    from False have rne: "r \<noteq> []" by auto
    then have "\<not> \<not> is_space (hd r)"
      unfolding r_def by (rule hd_dropWhile)
    with rne have runne: "run \<noteq> []"
      unfolding run_def by (simp add: takeWhile_eq_Nil_iff)
    have run: "\<forall>x\<in>set run. is_space x"
      unfolding run_def by (auto dest: set_takeWhileD)
    have r'not: "\<not> (\<forall>x\<in>set r'. is_space x)"
      using r' h by auto
    have "rtrim (run @ r') = run @ rtrim r'"
      by (simp only: rtrim_append r'not if_False)
    then have rr: "rtrim r = run @ rtrim r'"
      by (simp only: r [symmetric])
    obtain t' where t': "rtrim r' = h # t'"
      using rtrim_Cons_nonspace [OF h, of t] r' by auto
    have tr: "trim r = rtrim r'"
      by (simp add: trim_rtrim r'_def)
    have "rtrim (w @ r) = w @ rtrim r"
      by (simp only: rtrim_append False if_False)
    then have "rtrim s' = w @ rtrim r"
      by (simp only: s' [symmetric])
    then have "replace_spaces (rtrim s') = w @ replace_spaces (rtrim r)"
      using w by (simp add: replace_spaces_word)
    also have "replace_spaces (rtrim r) = 0x20 # replace_spaces (dropWhile is_space (rtrim r'))"
      unfolding rr using runne run by (rule replace_spaces_run)
    also have "dropWhile is_space (rtrim r') = rtrim r'"
      unfolding t' using h by simp
    finally have "replace_spaces (rtrim s') = w @ 0x20 # replace_spaces (trim r)"
      by (simp add: tr)
    with False show "replace_spaces (rtrim s') =
        (if \<forall>x\<in>set r. is_space x then w else w @ 0x20 # replace_spaces (trim r))"
      by simp
  qed
qed

lemma words_of_nonempty:
  "\<not> (\<forall>x\<in>set r. is_space x) \<Longrightarrow> words_of r \<noteq> []"
proof -
  assume "\<not> (\<forall>x\<in>set r. is_space x)"
  then have "dropWhile is_space r \<noteq> []"
    by (simp only: dropWhile_eq_Nil_conv not_False_eq_True)
  then obtain c cs where "dropWhile is_space r = c # cs"
    by (cases "dropWhile is_space r") auto
  from words_of_Cons [OF this] show ?thesis by simp
qed

lemma join_space_Cons: "ws \<noteq> [] \<Longrightarrow> join_space (w # ws) = w @ 0x20 # join_space ws"
  by (cases ws) simp_all

lemma normalize_words: "replace_spaces (trim s) = join_space (words_of s)"
proof (induction s rule: words_of.induct)
  case (1 s)
  show ?case
  proof (cases "dropWhile is_space s")
    case Nil
    have "trim s = []"
      unfolding trim_rtrim Nil by (simp add: rtrim_def)
    then show ?thesis
      by (simp add: words_of_Nil [OF Nil])
  next
    case (Cons c cs)
    define s' where "s' = c # cs"
    have d: "dropWhile is_space s = s'" by (simp only: Cons s'_def)
    have ne: "s' \<noteq> []" by (simp add: s'_def)
    have "dropWhile is_space s \<noteq> []" unfolding d by (rule ne)
    then have "\<not> is_space (hd (dropWhile is_space s))" by (rule hd_dropWhile)
    then have hd: "\<not> is_space (hd s')" unfolding d .
    define w where "w = takeWhile (\<lambda>x. \<not> is_space x) s'"
    define r where "r = dropWhile (\<lambda>x. \<not> is_space x) s'"
    have IH: "replace_spaces (trim r) = join_space (words_of r)"
      unfolding r_def s'_def using 1 [OF Cons] .
    have ws: "words_of s = w # words_of r"
      unfolding w_def r_def s'_def using Cons by (rule words_of_Cons)
    have ts: "trim s = rtrim s'"
      by (simp only: trim_rtrim d)
    note step = normalize_step [OF ne hd w_def r_def]
    show ?thesis
    proof (cases "\<forall>x\<in>set r. is_space x")
      case True
      then have "dropWhile is_space r = []"
        by (simp only: dropWhile_eq_Nil_conv)
      then have "words_of r = []"
        by (rule words_of_Nil)
      with True show ?thesis
        unfolding ts ws step by simp
    next
      case False
      then have "words_of r \<noteq> []"
        by (rule words_of_nonempty)
      with False show ?thesis
        unfolding ts ws step by (simp add: join_space_Cons IH)
    qed
  qed
qed

lemma normalized_eq: "normalized s = replace_spaces (trim s)"
  by (simp add: normalized_def normalize_words)

subsection \<open>The first piece of the split\<close>

lemma split_match_at_gt: "split_match_at S q = Some e \<Longrightarrow> q < e"
proof -
  assume m: "split_match_at S q = Some e"
  then have q: "q < length S" and sp: "is_space (S ! q)"
    and e: "e = q + length (takeWhile is_space (drop q S))"
    by (auto simp: split_match_at_def split: if_splits)
  from q have "drop q S = S ! q # drop (Suc q) S"
    by (simp add: Cons_nth_drop_Suc)
  with sp e show ?thesis by simp
qed

lemma split_match_at_iff:
  "(\<exists>e. split_match_at S q = Some e) \<longleftrightarrow>
     0 < q \<and> q < length S \<and> is_sentence_end (S ! (q - 1)) \<and> is_space (S ! q)"
  by (simp add: split_match_at_def)

lemma split_loop_head:
  "\<exists>rest. split_loop S 0 q =
     (case find (\<lambda>q'. \<exists>e. split_match_at S q' = Some e) [q..<length S] of
        None \<Rightarrow> S | Some q' \<Rightarrow> take q' S) # rest"
proof (induction S "0::nat" q rule: split_loop.induct)
  case (1 S q)
  show ?case
  proof (cases "q < length S")
    case False
    then show ?thesis by (simp add: split_loop.simps [of S 0 q])
  next
    case True
    then have upt: "[q..<length S] = q # [Suc q..<length S]"
      by (simp add: upt_conv_Cons)
    show ?thesis
    proof (cases "split_match_at S q")
      case None
      with True 1(1) upt show ?thesis
        by (simp add: split_loop.simps [of S 0 q])
    next
      case (Some e)
      then have "q < e" by (rule split_match_at_gt)
      with True Some upt show ?thesis
        by (simp add: split_loop.simps [of S 0 q])
    qed
  qed
qed

lemma find_match_shift:
  "find (\<lambda>q'. \<exists>e. split_match_at S q' = Some e) [0..<length S] =
   map_option Suc (first_split_point S)"
proof (cases S)
  case Nil
  then show ?thesis by (simp add: first_split_point_def)
next
  case (Cons c cs)
  have upt: "[0..<length S] = 0 # map Suc [0..<length S - 1]"
    using Cons by (simp add: upt_conv_Cons map_Suc_upt del: upt_Suc)
  have shift: "find P (map Suc xs) = map_option Suc (find (\<lambda>i. P (Suc i)) xs)"
    for P and xs :: "nat list"
    by (induction xs) auto
  have "find (\<lambda>i. \<exists>e. split_match_at S (Suc i) = Some e) [0..<length S - 1] =
        find (\<lambda>i. is_sentence_end (S ! i) \<and> is_space (S ! Suc i)) [0..<length S - 1]"
    by (rule find_cong) (auto simp: split_match_at_iff less_diff_conv)
  then show ?thesis
    unfolding first_split_point_def
    by (subst upt) (simp add: shift split_match_at_iff)
qed

lemma split_sentences_head: "\<exists>rest. split_sentences S = first_segment S # rest"
proof -
  obtain rest where "split_loop S 0 0 =
     (case find (\<lambda>q'. \<exists>e. split_match_at S q' = Some e) [0..<length S] of
        None \<Rightarrow> S | Some q' \<Rightarrow> take q' S) # rest"
    using split_loop_head [of S 0] by blast
  then have "split_sentences S = first_segment S # rest"
    by (simp add: split_sentences_def find_match_shift first_segment_def
        split: option.splits)
  then show ?thesis ..
qed

lemma first_split_point_Some:
  "first_split_point t = Some i \<Longrightarrow>
     Suc i < length t \<and> is_sentence_end (t ! i) \<and> is_space (t ! Suc i) \<and>
     (\<forall>j<i. \<not> (is_sentence_end (t ! j) \<and> is_space (t ! Suc j)))"
  unfolding first_split_point_def find_Some_iff
  by (auto simp: less_diff_conv)

lemma first_split_point_None:
  "first_split_point t = None \<longleftrightarrow>
     (\<forall>i. Suc i < length t \<longrightarrow> \<not> (is_sentence_end (t ! i) \<and> is_space (t ! Suc i)))"
  unfolding first_split_point_def find_None_iff
  by (auto simp: less_diff_conv)

lemma no_sentence_end_first_split_point:
  "\<forall>c\<in>set t. \<not> is_sentence_end c \<Longrightarrow> first_split_point t = None"
  unfolding first_split_point_def find_None_iff
  by (auto simp: less_diff_conv)

lemma first_segment_nonempty: "t \<noteq> [] \<Longrightarrow> first_segment t \<noteq> []"
  by (auto simp: first_segment_def split: option.splits)

subsection \<open>The summary\<close>

lemma mockSummarize_String:
  "mockSummarize (JString s) =
     Inr (let t = replace_spaces (trim s) in
          if t = [] then nota_vacia else js ''Resumen: '' @ clip (first_segment t))"
proof -
  have arg: "ToString (js_or (JString s) (JString [])) = Inr s"
    by (simp add: js_or_def)
  obtain rest where sp: "split_sentences (replace_spaces (trim s)) =
      first_segment (replace_spaces (trim s)) # rest"
    using split_sentences_head by blast
  show ?thesis
    unfolding mockSummarize_def arg sum.case Let_def sp
    by (simp add: first_segment_nonempty clip_def slice0_def)
qed

lemma letter_a: "\<not> is_space 0x61" "\<not> is_sentence_end 0x61"
  by (simp_all add: is_space_def is_white_space_def is_line_terminator_def is_sentence_end_def)

lemma hello_normalized:
  "replace_spaces (trim (js ''Hello world. Second sentence.'')) =
     js ''Hello world. Second sentence.''"
  by code_simp

lemma hello_first_segment:
  "clip (first_segment (js ''Hello world. Second sentence.'')) = js ''Hello world.''"
  by code_simp

lemma hello_summary:
  "mockSummarize (JString (js ''Hello world. Second sentence.'')) =
     Inr (js ''Resumen: Hello world.'')"
proof -
  have "js ''Hello world. Second sentence.'' \<noteq> []"
    by (simp add: js_def)
  then have "mockSummarize (JString (js ''Hello world. Second sentence.'')) =
      Inr (js ''Resumen: '' @ js ''Hello world.'')"
    by (simp add: mockSummarize_String Let_def hello_normalized hello_first_segment)
  then show ?thesis
    by (simp add: js_def)
qed

lemma mockSummarize_normalized:
  "mockSummarize (JString s) =
     Inr (if normalized s = [] then nota_vacia
          else js ''Resumen: '' @ clip (first_segment (normalized s)))"
  by (simp add: mockSummarize_String normalized_eq Let_def)

lemma normalized_blank: "\<forall>c\<in>set s. is_space c \<Longrightarrow> normalized s = []"
  by (simp add: normalized_eq normalized_Nil)

text \<open>
  C8. A text whose normalized form is empty, which is a text of whitespace only, is
  summarized as the fixed empty-note string.
\<close>

theorem mockSummarize_nota_vacia:
  "normalized s = [] \<Longrightarrow> mockSummarize (JString s) = Inr nota_vacia"
  by (simp add: mockSummarize_normalized)

theorem mockSummarize_nota_vacia_witness:
  "mockSummarize (JString []) = Inr nota_vacia \<and>
   mockSummarize (JString (js ''   '')) = Inr nota_vacia \<and>
   nota_vacia = [0x28, 0x4E, 0x6F, 0x74, 0x61, 0x20, 0x76, 0x61, 0x63, 0xED, 0x61, 0x29]"
proof -
  have e: "normalized [] = []"
    by (simp add: normalized_blank)
  have s: "normalized (js ''   '') = []"
    by (rule normalized_blank) (simp add: js_def is_space_def is_white_space_def)
  have "nota_vacia = [0x28, 0x4E, 0x6F, 0x74, 0x61, 0x20, 0x76, 0x61, 0x63, 0xED, 0x61, 0x29]"
    by (simp add: nota_vacia_def js_def)
  with mockSummarize_nota_vacia [OF e] mockSummarize_nota_vacia [OF s] show ?thesis
    by simp
qed

text \<open>
  C2, as the code has it. The normalized form \<open>t\<close> of a text is its words with one
  space between them. When \<open>t\<close> is not empty, the summary is the label \<open>Resumen: \<close>
  followed by the clipped first segment of \<open>t\<close>. The first segment ends with the first
  \<open>.\<close>, \<open>!\<close> or \<open>?\<close> that whitespace follows; when there is no such place it is all
  of \<open>t\<close>, so that a long text without a sentence end is cut at 240 code units and does
  get the ellipsis. The summary of \<open>Hello world. Second sentence.\<close> is
  \<open>Resumen: Hello world.\<close>
\<close>

theorem mockSummarize_first_segment:
  "(normalized s \<noteq> [] \<longrightarrow>
      mockSummarize (JString s) =
        Inr (js ''Resumen: '' @ clip (first_segment (normalized s)))) \<and>
   mockSummarize (JString (js ''Hello world. Second sentence.'')) =
     Inr (js ''Resumen: Hello world.'')"
proof
  show "normalized s \<noteq> [] \<longrightarrow>
      mockSummarize (JString s) =
        Inr (js ''Resumen: '' @ clip (first_segment (normalized s)))"
    by (simp add: mockSummarize_normalized)
next
  show "mockSummarize (JString (js ''Hello world. Second sentence.'')) =
      Inr (js ''Resumen: Hello world.'')"
    by (rule hello_summary)
qed

theorem mockSummarize_first_segment_witness:
  "normalized (js '' One!  Two? '') = js ''One! Two?'' \<and>
   mockSummarize (JString (js '' One!  Two? '')) = Inr (js ''Resumen: One!'')"
proof -
  have "replace_spaces (trim (js '' One!  Two? '')) = js ''One! Two?''"
    by code_simp
  then have t: "normalized (js '' One!  Two? '') = js ''One! Two?''"
    by (simp only: normalized_eq)
  have n: "normalized (js '' One!  Two? '') \<noteq> []"
    unfolding t by (simp add: js_def)
  have c: "clip (first_segment (js ''One! Two?'')) = js ''One!''"
    by code_simp
  from mockSummarize_first_segment [of "js '' One!  Two? ''"] n
  have "mockSummarize (JString (js '' One!  Two? '')) =
      Inr (js ''Resumen: '' @ clip (first_segment (normalized (js '' One!  Two? ''))))"
    by (rule conjunct1 [THEN mp])
  then have "mockSummarize (JString (js '' One!  Two? '')) =
      Inr (js ''Resumen: '' @ js ''One!'')"
    by (simp only: t c)
  with t show ?thesis
    by (simp add: js_def)
qed

text \<open>
  The fallback of C2 fails on a text of 241 letters \<open>a\<close>: there is no split point, the
  specification's words give the first 240 letters and no ellipsis, the code gives the
  first 240 letters and the ellipsis.
\<close>

theorem mockSummarize_fallback_counterexample:
  "mockSummarize (JString (replicate 241 0x61)) =
     Inr (js ''Resumen: '' @ replicate 240 0x61 @ [ellipsis]) \<and>
   mockSummarize_spec (replicate 241 0x61) = js ''Resumen: '' @ replicate 240 0x61 \<and>
   mockSummarize (JString (replicate 241 0x61)) \<noteq>
     Inr (mockSummarize_spec (replicate 241 0x61))"
proof -
  let ?s = "replicate 241 (0x61 :: code_unit)"
  have t: "normalized ?s = ?s"
    by (simp add: normalized_eq no_space_trim no_space_replace_spaces letter_a)
  have p: "first_split_point ?s = None"
    by (rule no_sentence_end_first_split_point) (simp add: letter_a)
  have ne: "?s \<noteq> []" by simp
  have code: "mockSummarize (JString ?s) = Inr (js ''Resumen: '' @ clip ?s)"
    unfolding mockSummarize_normalized t first_segment_def p using ne by simp
  have spec: "mockSummarize_spec ?s = js ''Resumen: '' @ clip (take 240 ?s)"
    unfolding mockSummarize_spec_def t Let_def p using ne by simp
  have c1: "clip ?s = replicate 240 0x61 @ [ellipsis]"
    by (simp add: clip_def)
  have c2: "clip (take 240 ?s) = replicate 240 0x61"
    by (simp add: clip_def)
  have "length (replicate 240 (0x61 :: code_unit) @ [ellipsis]) \<noteq>
      length (replicate 240 (0x61 :: code_unit))"
    by simp
  then have "replicate 240 (0x61 :: code_unit) @ [ellipsis] \<noteq> replicate 240 0x61"
    by (simp del: length_replicate)
  with code spec c1 c2 show ?thesis by simp
qed

section \<open>SummarizeNoteHandler and ListNotesHandler\<close>

subsection \<open>The path of a request\<close>

lemma respond_fetches:
  "fetches (respond calls code b) = concat (map (\<lambda>c. case c of Fetch r \<Rightarrow> [r] | _ \<Rightarrow> []) calls)"
  by (simp add: fetches_def respond_def)

lemma summarizeNote_missing_id:
  "noteId_of req = Inr [] \<Longrightarrow> summarizeNote w req = ([], Inr missing_id)"
  by (simp add: summarizeNote_def respond_def missing_id_def)

lemma summarizeNote_fetched:
  assumes "noteId_of req = Inr noteId" "noteId \<noteq> []" "extractIdToken req = Inr idToken"
    "verifyIdToken w idToken = Inr uid" "getNote w uid noteId = Inr noteSnap" "exists noteSnap"
  shows "\<not> truthy (note_text noteSnap) \<Longrightarrow>
     summarizeNote w req = ([VerifyIdToken idToken, GetNote uid noteId], Inr no_text_field)"
  using assms by (simp add: summarizeNote_def Let_def respond_def no_text_field_def)

lemma summarizeNote_decision:
  assumes "noteId_of req = Inr noteId" "noteId \<noteq> []" "extractIdToken req = Inr idToken"
    "verifyIdToken w idToken = Inr uid" "getNote w uid noteId = Inr noteSnap"
    "exists noteSnap" "truthy (note_text noteSnap)"
  shows "summarizeNote w req =
     (let apiKey = apiKey_of (env w);
          text = note_text noteSnap;
          stored = [VerifyIdToken idToken, GetNote uid noteId]
      in if env w (js ''USE_MOCK_OPENAI'') = Some (js ''1'') \<or> (isEmulator (env w) \<and> apiKey = [])
         then
           (case mockSummarize text of
              Inl err \<Rightarrow> respond stored 500 (error_body (js ''Internal error''))
            | Inr summary \<Rightarrow> respond stored 200 (Json (mock_body noteId summary)))
         else if apiKey = []
         then respond stored 500 (error_body (js ''OpenAI API key not configured''))
         else
           (case ToString text of
              Inl err \<Rightarrow> respond stored 500 (error_body (js ''Internal error''))
            | Inr shown \<Rightarrow>
                let asked = stored @ [Fetch (openai_request apiKey (prompt_of shown))] in
                  (case fetch w (openai_request apiKey (prompt_of shown)) of
                     Inl err \<Rightarrow> respond asked 500 (error_body (js ''Internal error''))
                   | Inr openAiResp \<Rightarrow>
                       if \<not> ok openAiResp
                       then
                         (case body_text openAiResp of
                            Inl err \<Rightarrow> respond asked 500 (error_body (js ''Internal error''))
                          | Inr errText \<Rightarrow> respond asked 502 (Json (failure_body errText)))
                       else
                         (case body_json openAiResp of
                            Inl err \<Rightarrow> respond asked 500 (error_body (js ''Internal error''))
                          | Inr aiJson \<Rightarrow>
                              (case summary_of aiJson of
                                 Inl err \<Rightarrow>
                                   respond asked 500 (error_body (js ''Internal error''))
                               | Inr summary \<Rightarrow>
                                   respond asked 200 (Json (live_body noteId summary)))))))"
  using assms
  by (simp add: summarizeNote_def Let_def mock_body_def live_body_def failure_body_def
      cong: sum.case_cong if_cong)

lemma mockSummarize_shown:
  "ToString (js_or text (JString [])) = Inr shown \<Longrightarrow>
     mockSummarize text = mockSummarize (JString shown)"
  by (simp add: mockSummarize_def js_or_def)

lemma mockSummarize_returns:
  assumes "truthy text" "ToString text = Inr shown"
  shows "\<exists>summary. mockSummarize text = Inr summary"
proof -
  from assms have "ToString (js_or text (JString [])) = Inr shown"
    by (simp add: js_or_def)
  then have "mockSummarize text = mockSummarize (JString shown)"
    by (rule mockSummarize_shown)
  then show ?thesis
    by (simp add: mockSummarize_String)
qed

lemma mockSummarize_raises:
  assumes "truthy text" "ToString text = Inl err"
  shows "mockSummarize text = Inl err"
  using assms by (simp add: mockSummarize_def js_or_def)

text \<open>
  A text without a string form, an object that has a property \<open>toString\<close> of its own:
  \<open>String(text)\<close> in MockSummarizer and the template literal of the prompt raise, the
  handler catches it and answers 500, before any call of the backend.
\<close>

lemma summarizeNote_no_string_form:
  assumes "noteId_of req = Inr noteId" "noteId \<noteq> []" "extractIdToken req = Inr idToken"
    "verifyIdToken w idToken = Inr uid" "getNote w uid noteId = Inr noteSnap"
    "exists noteSnap" "truthy (note_text noteSnap)"
    and "ToString (note_text noteSnap) = Inl err"
    and "env w (js ''USE_MOCK_OPENAI'') = Some (js ''1'') \<or> apiKey_of (env w) \<noteq> []"
  shows "summarizeNote w req =
     ([VerifyIdToken idToken, GetNote uid noteId],
      Inr \<lparr>status = 500, sent = error_body (js ''Internal error'')\<rparr>)"
proof (cases "env w (js ''USE_MOCK_OPENAI'') = Some (js ''1'')")
  case True
  with mockSummarize_raises [OF assms(7,8)] show ?thesis
    by (simp add: summarizeNote_decision [OF assms(1-7)] Let_def respond_def)
next
  case False
  with assms(9) have "apiKey_of (env w) \<noteq> []" by simp
  with False assms(8) show ?thesis
    by (simp add: summarizeNote_decision [OF assms(1-7)] Let_def respond_def)
qed

subsection \<open>The sample world, evaluated\<close>

lemma trim_n1: "trim (js '' n1 '') = js ''n1''" "trim (js ''n1'') = js ''n1''"
  by (simp_all add: trim_def js_def is_space_def is_white_space_def is_line_terminator_def)

lemma n1_nonempty: "js ''n1'' \<noteq> []"
  by (simp add: js_def)

lemma sample_token: "extractIdToken (sample_request (js ''tok'') q b) = Inr (js ''tok'')"
  by (simp add: extractIdToken_def authHeader_def sample_request_def str_or_def match_bearer_def
      js_def ascii_upper_def is_line_terminator_def)

lemma anonymous_token: "extractIdToken (anonymous_request q b) = Inl missing_credential"
  by (simp add: extractIdToken_def authHeader_def anonymous_request_def str_or_def
      match_bearer_def missing_credential_def js_def)

lemma sample_verify: "verifyIdToken (sample_world e note a) (js ''tok'') = Inr (js ''u1'')"
  by (simp add: sample_world_def)

lemma sample_getNote: "getNote (sample_world e note a) (js ''u1'') (js ''n1'') = Inr note"
  by (simp add: sample_world_def)

lemma query_id: "member (query (sample_request t (id_object s) b)) (js ''id'') = JString s"
  by (simp add: sample_request_def id_object_def member_def)

lemma body_id: "member (body (sample_request t q (id_object s))) (js ''id'') = JString s"
  by (simp add: sample_request_def id_object_def member_def)

lemma no_query_id: "member (query (sample_request t (JObject []) b)) (js ''id'') = JUndefined"
  by (simp add: sample_request_def member_def)

lemma member_or_empty: "member (js_or v (JObject [])) k = member v k"
  by (cases v) (simp_all add: js_or_def member_def)

lemma note_text_find:
  "note_text snap = (case find truthy (text_fields snap) of None \<Rightarrow> JString [] | Some v \<Rightarrow> v)"
  unfolding note_text_def Let_def member_or_empty
  by (simp add: text_fields_def js_or_def)

lemma hello_note_text: "note_text hello_note = JString (js ''Hello world. Second sentence.'')"
  by (simp add: note_text_def hello_note_def js_or_def member_def Let_def)
    ((simp add: js_def)?)

lemma hello_note_ok: "exists hello_note" "truthy (note_text hello_note)"
  by (simp add: hello_note_def, simp add: hello_note_text js_def)

lemma ok_answer_summary:
  "summary_of (JObject
          [(js ''choices'',
            JArray [JObject [(js ''message'',
              JObject [(js ''content'', JString (js '' Short. ''))])]])]) = Inr (js ''Short.'')"
proof -
  have t: "trim (js '' Short. '') = js ''Short.''"
    by (simp add: trim_def js_def is_space_def is_white_space_def is_line_terminator_def)
  show ?thesis
    unfolding summary_of_def Let_def
    by (simp add: nullish_def member_def index0_def t) ((simp add: js_def)?)
qed

subsection \<open>The note identifier\<close>

lemma noteId_of_query:
  "member (query req) (js ''id'') = JString q \<Longrightarrow> q \<noteq> [] \<Longrightarrow> noteId_of req = Inr (trim q)"
  by (simp add: noteId_of_def js_or_def)

lemma member_truthy_object: "truthy (member v k) \<Longrightarrow> truthy v"
  by (cases v) (simp_all add: member_def)

lemma noteId_of_body:
  assumes q: "\<not> truthy (member (query req) (js ''id''))"
    and b: "member (body req) (js ''id'') = JString b"
  shows "noteId_of req = Inr (trim b)"
proof (cases "b = []")
  case True
  with q b show ?thesis
    by (simp add: noteId_of_def js_or_def js_and_def trim_def)
next
  case False
  with b have "truthy (member (body req) (js ''id''))" by simp
  then have "truthy (body req)" by (rule member_truthy_object)
  with q b False show ?thesis
    by (simp add: noteId_of_def js_or_def js_and_def)
qed

lemma noteId_of_missing:
  "\<not> truthy (member (query req) (js ''id'')) \<Longrightarrow> \<not> truthy (member (body req) (js ''id'')) \<Longrightarrow>
     noteId_of req = Inr []"
  by (cases "truthy (body req)") (simp_all add: noteId_of_def js_or_def js_and_def trim_def)

lemma sample_noteId:
  "noteId_of (sample_request t (id_object (js '' n1 '')) b) = Inr (js ''n1'')"
proof -
  have "js '' n1 '' \<noteq> []" by (simp add: js_def)
  with noteId_of_query [OF query_id] show ?thesis
    by (simp add: trim_n1)
qed

lemmas sample_reach =
  sample_noteId n1_nonempty sample_token sample_verify sample_getNote

text \<open>
  C5, as the code has it. The identifier is the query parameter \<open>id\<close> when that is a
  non-empty string; when the query parameter is absent or empty it is the field \<open>id\<close> of
  the body; either is trimmed. When neither is there, and whenever the trimmed identifier
  is empty, the handler answers 400 with \<open>Missing note id\<close> before it looks at the
  credential: no header and no service is read on that path.
\<close>

theorem summarizeNote_noteId:
  "(member (query req) (js ''id'') = JString q \<and> q \<noteq> [] \<longrightarrow> noteId_of req = Inr (trim q)) \<and>
   (\<not> truthy (member (query req) (js ''id'')) \<and> member (body req) (js ''id'') = JString b \<longrightarrow>
      noteId_of req = Inr (trim b)) \<and>
   (\<not> truthy (member (query req) (js ''id'')) \<and> \<not> truthy (member (body req) (js ''id'')) \<longrightarrow>
      noteId_of req = Inr []) \<and>
   (noteId_of req = Inr [] \<longrightarrow> summarizeNote w req = ([], Inr missing_id))"
  by (simp add: noteId_of_query noteId_of_body noteId_of_missing summarizeNote_missing_id)

theorem summarizeNote_noteId_witness:
  "noteId_of (sample_request (js ''tok'') (id_object (js '' n1 '')) (id_object (js ''zz''))) =
     Inr (js ''n1'') \<and>
   noteId_of (sample_request (js ''tok'') (JObject []) (id_object (js '' n1 ''))) =
     Inr (js ''n1'') \<and>
   summarizeNote (sample_world mock_env hello_note (Inr ok_answer))
     (sample_request (js ''tok'') (JObject []) JUndefined) = ([], Inr missing_id) \<and>
   summarizeNote (sample_world mock_env hello_note (Inr ok_answer))
     (anonymous_request (JObject []) JUndefined) = ([], Inr missing_id)"
proof -
  let ?w = "sample_world mock_env hello_note (Inr ok_answer)"
  let ?r1 = "sample_request (js ''tok'') (id_object (js '' n1 '')) (id_object (js ''zz''))"
  let ?r2 = "sample_request (js ''tok'') (JObject []) (id_object (js '' n1 ''))"
  let ?r3 = "sample_request (js ''tok'') (JObject []) JUndefined"
  let ?r4 = "anonymous_request (JObject []) JUndefined"
  have 1: "member (query ?r1) (js ''id'') = JString (js '' n1 '') \<and> js '' n1 '' \<noteq> []"
    by (simp add: query_id) (simp add: js_def)
  have 2: "\<not> truthy (member (query ?r2) (js ''id'')) \<and>
      member (body ?r2) (js ''id'') = JString (js '' n1 '')"
    by (simp add: no_query_id body_id)
  have 3: "\<not> truthy (member (query ?r3) (js ''id'')) \<and>
      \<not> truthy (member (body ?r3) (js ''id''))"
    by (simp add: sample_request_def member_def)
  have 4: "\<not> truthy (member (query ?r4) (js ''id'')) \<and>
      \<not> truthy (member (body ?r4) (js ''id''))"
    by (simp add: anonymous_request_def member_def)
  from summarizeNote_noteId [of ?r1 "js '' n1 ''"] 1
  have a: "noteId_of ?r1 = Inr (js ''n1'')"
    by (simp add: trim_n1)
  from summarizeNote_noteId [of ?r2 _ "js '' n1 ''"] 2
  have b: "noteId_of ?r2 = Inr (js ''n1'')"
    by (simp add: trim_n1)
  from summarizeNote_noteId [of ?r3 _ _ ?w] 3
  have c: "summarizeNote ?w ?r3 = ([], Inr missing_id)"
    by blast
  from summarizeNote_noteId [of ?r4 _ _ ?w] 4
  have d: "summarizeNote ?w ?r4 = ([], Inr missing_id)"
    by blast
  from a b c d show ?thesis by simp
qed

text \<open>
  C5 as it is worded takes the identifier from the query parameter unless that is absent. A
  request with \<open>?id=\<close>, the parameter present and empty, and the body \<open>{id: "n1"}\<close>
  has an empty identifier by that rule, which promises 400; the code goes on with \<open>n1\<close>
  and, in mock mode, answers 200 with the summary of that note.
\<close>

theorem summarizeNote_empty_query_id_counterexample:
  "noteId_claimed (sample_request (js ''tok'') (id_object []) (id_object (js ''n1''))) =
     JString [] \<and>
   noteId_of (sample_request (js ''tok'') (id_object []) (id_object (js ''n1''))) =
     Inr (js ''n1'') \<and>
   summarizeNote (sample_world mock_env hello_note (Inr ok_answer))
     (sample_request (js ''tok'') (id_object []) (id_object (js ''n1''))) =
     ([VerifyIdToken (js ''tok''), GetNote (js ''u1'') (js ''n1'')],
      Inr \<lparr>status = 200,
           sent = Json (JObject [(js ''id'', JString (js ''n1'')),
                    (js ''summary'', JString (js ''Resumen: Hello world.'')),
                    (js ''mocked'', JBoolean True)])\<rparr>) \<and>
   summarizeNote (sample_world mock_env hello_note (Inr ok_answer))
     (sample_request (js ''tok'') (id_object []) (id_object (js ''n1''))) \<noteq>
     ([], Inr missing_id)"
proof -
  let ?w = "sample_world mock_env hello_note (Inr ok_answer)"
  let ?r = "sample_request (js ''tok'') (id_object []) (id_object (js ''n1''))"
  have c: "noteId_claimed ?r = JString []"
    by (simp add: noteId_claimed_def query_id)
  have "\<not> truthy (member (query ?r) (js ''id''))"
    by (simp add: query_id)
  then have n: "noteId_of ?r = Inr (js ''n1'')"
    using noteId_of_body [of ?r "js ''n1''"] by (simp add: body_id trim_n1)
  have m: "env ?w (js ''USE_MOCK_OPENAI'') = Some (js ''1'')"
    by (simp add: sample_world_def mock_env_def)
  have s: "summarizeNote ?w ?r =
      ([VerifyIdToken (js ''tok''), GetNote (js ''u1'') (js ''n1'')],
       Inr \<lparr>status = 200, sent = Json (mock_body (js ''n1'') (js ''Resumen: Hello world.''))\<rparr>)"
    using m
    by (simp add: summarizeNote_decision
        [OF n n1_nonempty sample_token sample_verify sample_getNote hello_note_ok] respond_def
        hello_note_text hello_summary)
  from c n s show ?thesis
    by (simp add: mock_body_def)
qed

text \<open>
  C10. A query parameter \<open>id\<close> of whitespace only is a non-empty string, so it is the
  one chosen; trimmed it is empty, and the answer is 400 with \<open>Missing note id\<close>
  whatever the body holds.
\<close>

theorem summarizeNote_blank_query_id:
  "member (query req) (js ''id'') = JString q \<and> q \<noteq> [] \<and> (\<forall>c\<in>set q. is_space c) \<longrightarrow>
     noteId_of req = Inr [] \<and> summarizeNote w req = ([], Inr missing_id)"
proof
  assume a: "member (query req) (js ''id'') = JString q \<and> q \<noteq> [] \<and> (\<forall>c\<in>set q. is_space c)"
  then have "noteId_of req = Inr (trim q)"
    by (simp add: noteId_of_query)
  moreover from a have "trim q = []"
    by (simp add: trim_Nil)
  ultimately show "noteId_of req = Inr [] \<and> summarizeNote w req = ([], Inr missing_id)"
    by (simp add: summarizeNote_missing_id)
qed

theorem summarizeNote_blank_query_id_witness:
  "member (body (sample_request (js ''tok'') (id_object (js ''  '')) (id_object (js ''n1''))))
     (js ''id'') = JString (js ''n1'') \<and>
   summarizeNote (sample_world mock_env hello_note (Inr ok_answer))
     (sample_request (js ''tok'') (id_object (js ''  '')) (id_object (js ''n1''))) =
     ([], Inr \<lparr>status = 400,
               sent = Json (JObject [(js ''error'', JString (js ''Missing note id''))])\<rparr>)"
proof -
  let ?req = "sample_request (js ''tok'') (id_object (js ''  '')) (id_object (js ''n1''))"
  let ?w = "sample_world mock_env hello_note (Inr ok_answer)"
  have q: "member (query ?req) (js ''id'') = JString (js ''  '') \<and> js ''  '' \<noteq> [] \<and>
      (\<forall>c\<in>set (js ''  ''). is_space c)"
    by (simp add: query_id) (simp add: js_def is_space_def is_white_space_def)
  from summarizeNote_blank_query_id [of ?req "js ''  ''" ?w] q
  have "summarizeNote ?w ?req = ([], Inr missing_id)"
    by blast
  then show ?thesis
    by (simp add: body_id missing_id_def error_body_def)
qed

subsection \<open>The summarization decision\<close>

lemma hello_shown:
  "ToString (note_text hello_note) = Inr (js ''Hello world. Second sentence.'')"
  by (simp add: hello_note_text)

lemma unprintable_note_text:
  "note_text unprintable_note = JObject [(js ''toString'', JString (js ''x''))]"
  by (simp add: note_text_def unprintable_note_def js_or_def member_def Let_def)
    ((simp add: js_def)?)

text \<open>The note \<open>{content: {toString: "x"}}\<close> in mock mode: 500, and no summary.\<close>

lemma summarizeNote_unprintable_example:
  "summarizeNote (sample_world mock_env unprintable_note (Inr ok_answer))
      (sample_request (js ''tok'') (id_object (js '' n1 '')) JUndefined) =
     ([VerifyIdToken (js ''tok''), GetNote (js ''u1'') (js ''n1'')],
      Inr \<lparr>status = 500,
           sent = Json (JObject [(js ''error'', JString (js ''Internal error''))])\<rparr>)"
proof -
  let ?w = "sample_world mock_env unprintable_note (Inr ok_answer)"
  have ok: "exists unprintable_note" "truthy (note_text unprintable_note)"
    by (simp add: unprintable_note_def, simp add: unprintable_note_text)
  have r: "ToString (note_text unprintable_note) =
      Inl (TypeError (js ''Cannot convert object to primitive value''))"
    by (simp add: unprintable_note_text)
  have m: "env ?w (js ''USE_MOCK_OPENAI'') = Some (js ''1'') \<or> apiKey_of (env ?w) \<noteq> []"
    by (simp add: sample_world_def mock_env_def)
  from summarizeNote_no_string_form [OF sample_reach ok r m] show ?thesis
    by (simp add: error_body_def)
qed

text \<open>
  C1. A request reaches the decision when its identifier is not empty, its credential is
  verified, the note exists and its text is not empty; the text is one that has a string
  form, as every string has. There, with the force-mock flag (\<open>USE_MOCK_OPENAI\<close> is
  \<open>1\<close>), or in emulator mode with no API key, MockSummarizer returns a summary and the
  handler answers 200 with \<open>{id, summary, mocked: true}\<close> holding it; the calls it made
  are the verification and the read of the note: the summarization backend is not
  called. On the live path, when the backend answers with success and a summary is read
  from its answer, the body is \<open>{id, summary}\<close> and has no field \<open>mocked\<close>.
\<close>

theorem summarizeNote_mock_or_live:
  assumes "noteId_of req = Inr noteId" "noteId \<noteq> []" "extractIdToken req = Inr idToken"
    "verifyIdToken w idToken = Inr uid" "getNote w uid noteId = Inr noteSnap"
    "exists noteSnap" "truthy (note_text noteSnap)"
    and "ToString (note_text noteSnap) = Inr shown"
  shows "(env w (js ''USE_MOCK_OPENAI'') = Some (js ''1'') \<or>
          (isEmulator (env w) \<and> apiKey_of (env w) = []) \<longrightarrow>
            (\<exists>summary. mockSummarize (note_text noteSnap) = Inr summary \<and>
               summarizeNote w req =
                 ([VerifyIdToken idToken, GetNote uid noteId],
                  Inr \<lparr>status = 200, sent = Json (mock_body noteId summary)\<rparr>)) \<and>
            fetches (summarizeNote w req) = []) \<and>
         (env w (js ''USE_MOCK_OPENAI'') \<noteq> Some (js ''1'') \<and> apiKey_of (env w) \<noteq> [] \<and>
          fetch w (openai_request (apiKey_of (env w)) (prompt_of shown)) = Inr r \<and>
          ok r \<and> body_json r = Inr aiJson \<and> summary_of aiJson = Inr summary \<longrightarrow>
            snd (summarizeNote w req) =
              Inr \<lparr>status = 200, sent = Json (live_body noteId summary)\<rparr> \<and>
            member (live_body noteId summary) (js ''mocked'') = JUndefined)"
proof (intro conjI impI)
  assume m: "env w (js ''USE_MOCK_OPENAI'') = Some (js ''1'') \<or>
      (isEmulator (env w) \<and> apiKey_of (env w) = [])"
  obtain mocked where s: "mockSummarize (note_text noteSnap) = Inr mocked"
    using mockSummarize_returns [OF assms(7,8)] by blast
  with m have "summarizeNote w req =
      ([VerifyIdToken idToken, GetNote uid noteId],
       Inr \<lparr>status = 200, sent = Json (mock_body noteId mocked)\<rparr>)"
    by (simp add: summarizeNote_decision [OF assms(1-7)] respond_def)
  with s show "\<exists>summary. mockSummarize (note_text noteSnap) = Inr summary \<and>
      summarizeNote w req =
        ([VerifyIdToken idToken, GetNote uid noteId],
         Inr \<lparr>status = 200, sent = Json (mock_body noteId summary)\<rparr>)"
    by blast
  from m s show "fetches (summarizeNote w req) = []"
    by (simp add: summarizeNote_decision [OF assms(1-7)] respond_fetches)
next
  assume l: "env w (js ''USE_MOCK_OPENAI'') \<noteq> Some (js ''1'') \<and> apiKey_of (env w) \<noteq> [] \<and>
      fetch w (openai_request (apiKey_of (env w)) (prompt_of shown)) = Inr r \<and>
      ok r \<and> body_json r = Inr aiJson \<and> summary_of aiJson = Inr summary"
  with assms(8) show "snd (summarizeNote w req) =
      Inr \<lparr>status = 200, sent = Json (live_body noteId summary)\<rparr>"
    by (simp add: summarizeNote_decision [OF assms(1-7)] respond_def)
  show "member (live_body noteId summary) (js ''mocked'') = JUndefined"
    by (simp add: member_def live_body_def js_def)
qed

theorem summarizeNote_mock_or_live_witness:
  "summarizeNote (sample_world mock_env hello_note (Inr ok_answer))
      (sample_request (js ''tok'') (id_object (js '' n1 '')) JUndefined) =
     ([VerifyIdToken (js ''tok''), GetNote (js ''u1'') (js ''n1'')],
      Inr \<lparr>status = 200,
           sent = Json (JObject [(js ''id'', JString (js ''n1'')),
                    (js ''summary'', JString (js ''Resumen: Hello world.'')),
                    (js ''mocked'', JBoolean True)])\<rparr>) \<and>
   summarizeNote (sample_world emulator_env hello_note (Inr ok_answer))
      (sample_request (js ''tok'') (id_object (js '' n1 '')) JUndefined) =
     ([VerifyIdToken (js ''tok''), GetNote (js ''u1'') (js ''n1'')],
      Inr \<lparr>status = 200,
           sent = Json (JObject [(js ''id'', JString (js ''n1'')),
                    (js ''summary'', JString (js ''Resumen: Hello world.'')),
                    (js ''mocked'', JBoolean True)])\<rparr>) \<and>
   fetches (summarizeNote (sample_world emulator_env hello_note (Inr ok_answer))
      (sample_request (js ''tok'') (id_object (js '' n1 '')) JUndefined)) = [] \<and>
   snd (summarizeNote (sample_world live_env hello_note (Inr ok_answer))
      (sample_request (js ''tok'') (id_object (js '' n1 '')) JUndefined)) =
     Inr \<lparr>status = 200,
          sent = Json (JObject [(js ''id'', JString (js ''n1'')),
                   (js ''summary'', JString (js ''Short.''))])\<rparr>"
proof -
  let ?req = "sample_request (js ''tok'') (id_object (js '' n1 '')) JUndefined"
  let ?a = "Inr ok_answer :: error + fetch_response"
  let ?json = "JObject
          [(js ''choices'',
            JArray [JObject [(js ''message'',
              JObject [(js ''content'', JString (js '' Short. ''))])]])]"
  let ?mocked = "([VerifyIdToken (js ''tok''), GetNote (js ''u1'') (js ''n1'')],
       Inr \<lparr>status = 200,
            sent = Json (mock_body (js ''n1'') (js ''Resumen: Hello world.''))\<rparr>)"
  have m: "env (sample_world mock_env hello_note ?a) (js ''USE_MOCK_OPENAI'') = Some (js ''1'')"
    by (simp add: sample_world_def mock_env_def)
  have e: "isEmulator (env (sample_world emulator_env hello_note ?a)) \<and>
      apiKey_of (env (sample_world emulator_env hello_note ?a)) = []"
    by (simp add: sample_world_def emulator_env_def isEmulator_def apiKey_of_def str_or_def js_def)
  have l: "env (sample_world live_env hello_note ?a) (js ''USE_MOCK_OPENAI'') \<noteq> Some (js ''1'') \<and>
      apiKey_of (env (sample_world live_env hello_note ?a)) \<noteq> [] \<and>
      fetch (sample_world live_env hello_note ?a)
        (openai_request (apiKey_of (env (sample_world live_env hello_note ?a)))
          (prompt_of (js ''Hello world. Second sentence.''))) = Inr ok_answer \<and>
      ok ok_answer \<and> body_json ok_answer = Inr ?json \<and> summary_of ?json = Inr (js ''Short.'')"
    by (simp add: ok_answer_summary)
      (simp add: sample_world_def live_env_def apiKey_of_def str_or_def ok_answer_def ok_def
        js_def)
  have h: "mockSummarize (note_text hello_note) = Inr (js ''Resumen: Hello world.'')"
    by (simp add: hello_note_text hello_summary)
  note reach = sample_reach hello_note_ok hello_shown
  from summarizeNote_mock_or_live [OF reach, of mock_env ?a JUndefined] m h
  have 1: "summarizeNote (sample_world mock_env hello_note ?a) ?req = ?mocked"
    by auto
  from summarizeNote_mock_or_live [OF reach, of emulator_env ?a JUndefined] e h
  have 2: "summarizeNote (sample_world emulator_env hello_note ?a) ?req = ?mocked \<and>
      fetches (summarizeNote (sample_world emulator_env hello_note ?a) ?req) = []"
    by auto
  from summarizeNote_mock_or_live
    [OF reach, of live_env ?a JUndefined ok_answer ?json "js ''Short.''"] l
  have 3: "snd (summarizeNote (sample_world live_env hello_note ?a) ?req) =
      Inr \<lparr>status = 200, sent = Json (live_body (js ''n1'') (js ''Short.''))\<rparr>"
    by (rule conjunct2 [THEN mp, THEN conjunct1])
  from 1 2 3 show ?thesis
    by (simp add: mock_body_def live_body_def fetches_def)
qed

text \<open>
  C7. On the live path (no force-mock flag, an API key, a text that has a string form to
  put in the prompt), when the backend answers with a status outside 200 to 299 and its
  body is read as the text \<open>d\<close>, the handler answers 502 with
  \<open>{error: "Failed to summarize", details: d}\<close>, and the backend was called once:
  nothing is tried again.
\<close>

theorem summarizeNote_backend_failure:
  assumes "noteId_of req = Inr noteId" "noteId \<noteq> []" "extractIdToken req = Inr idToken"
    "verifyIdToken w idToken = Inr uid" "getNote w uid noteId = Inr noteSnap"
    "exists noteSnap" "truthy (note_text noteSnap)"
    and "ToString (note_text noteSnap) = Inr shown"
    and "env w (js ''USE_MOCK_OPENAI'') \<noteq> Some (js ''1'')" "apiKey_of (env w) \<noteq> []"
    and "fetch w (openai_request (apiKey_of (env w)) (prompt_of shown)) = Inr r"
    and "\<not> ok r" "body_text r = Inr d"
  shows "summarizeNote w req =
           ([VerifyIdToken idToken, GetNote uid noteId,
             Fetch (openai_request (apiKey_of (env w)) (prompt_of shown))],
            Inr \<lparr>status = 502, sent = Json (failure_body d)\<rparr>) \<and>
         fetches (summarizeNote w req) =
           [openai_request (apiKey_of (env w)) (prompt_of shown)]"
  using assms(8-13)
  by (simp add: summarizeNote_decision [OF assms(1-7)] respond_def fetches_def)

theorem summarizeNote_backend_failure_witness:
  "summarizeNote (sample_world live_env hello_note (Inr failed_answer))
      (sample_request (js ''tok'') (id_object (js '' n1 '')) JUndefined) =
     ([VerifyIdToken (js ''tok''), GetNote (js ''u1'') (js ''n1''),
       Fetch (openai_request (js ''sk-1'') (prompt_of (js ''Hello world. Second sentence.'')))],
      Inr \<lparr>status = 502,
           sent = Json (JObject [(js ''error'', JString (js ''Failed to summarize'')),
                    (js ''details'', JString (js ''rate limited''))])\<rparr>)"
proof -
  let ?w = "sample_world live_env hello_note (Inr failed_answer)"
  have k: "apiKey_of (env ?w) = js ''sk-1''"
    by (simp add: sample_world_def live_env_def apiKey_of_def str_or_def)
      ((simp add: js_def)?)
  have m: "env ?w (js ''USE_MOCK_OPENAI'') \<noteq> Some (js ''1'')"
    by (simp add: sample_world_def live_env_def js_def)
  have kn: "apiKey_of (env ?w) \<noteq> []"
    unfolding k by (simp add: js_def)
  have f: "fetch ?w (openai_request (apiKey_of (env ?w))
      (prompt_of (js ''Hello world. Second sentence.''))) = Inr failed_answer"
    by (simp add: sample_world_def)
  have n: "\<not> ok failed_answer" "body_text failed_answer = Inr (js ''rate limited'')"
    by (simp_all add: ok_def failed_answer_def)
  note reach = sample_reach hello_note_ok hello_shown
  from summarizeNote_backend_failure [OF reach m kn f n]
  show ?thesis
    by (simp add: k failure_body_def)
qed

subsection \<open>The text of a note\<close>

lemma text_fields_body_note:
  "text_fields body_note = [JUndefined, JNull, JString (js ''Hello world. Second sentence.'')]"
  by (simp add: text_fields_def body_note_def member_def js_def)

lemma text_fields_blank_note: "text_fields blank_note = [JString [], JUndefined, JUndefined]"
  by (simp add: text_fields_def blank_note_def member_def js_def)

lemma text_fields_empty_content_note:
  "text_fields empty_content_note =
     [JString [], JString (js ''Hello world. Second sentence.''), JUndefined]"
  by (simp add: text_fields_def empty_content_note_def member_def js_def)

lemma hello_nonempty: "js ''Hello world. Second sentence.'' \<noteq> []"
  by (simp add: js_def)

text \<open>
  C4, as the code has it. The text of a note is the first of its fields \<open>content\<close>,
  \<open>text\<close>, \<open>body\<close> that is populated, which for a string means not empty. When none
  of the three is, the handler answers 400 with
  \<open>Note has no text field (expected content/text/body)\<close> after the read of the note,
  and the summarization backend is not called.
\<close>

theorem note_text_first_populated:
  "note_text snap =
     (case find truthy (text_fields snap) of None \<Rightarrow> JString [] | Some v \<Rightarrow> v) \<and>
   (noteId_of req = Inr noteId \<and> noteId \<noteq> [] \<and> extractIdToken req = Inr idToken \<and>
    verifyIdToken w idToken = Inr uid \<and> getNote w uid noteId = Inr snap \<and> exists snap \<and>
    find truthy (text_fields snap) = None \<longrightarrow>
      summarizeNote w req = ([VerifyIdToken idToken, GetNote uid noteId], Inr no_text_field) \<and>
      fetches (summarizeNote w req) = [])"
proof (intro conjI impI)
  show "note_text snap =
      (case find truthy (text_fields snap) of None \<Rightarrow> JString [] | Some v \<Rightarrow> v)"
    by (rule note_text_find)
next
  assume a: "noteId_of req = Inr noteId \<and> noteId \<noteq> [] \<and> extractIdToken req = Inr idToken \<and>
    verifyIdToken w idToken = Inr uid \<and> getNote w uid noteId = Inr snap \<and> exists snap \<and>
    find truthy (text_fields snap) = None"
  then have "\<not> truthy (note_text snap)"
    by (simp add: note_text_find)
  with a have s: "summarizeNote w req =
      ([VerifyIdToken idToken, GetNote uid noteId], Inr no_text_field)"
    by (simp add: summarizeNote_fetched)
  then show "summarizeNote w req =
      ([VerifyIdToken idToken, GetNote uid noteId], Inr no_text_field)" .
  from s show "fetches (summarizeNote w req) = []"
    by (simp add: fetches_def)
qed

theorem note_text_first_populated_witness:
  "note_text body_note = JString (js ''Hello world. Second sentence.'') \<and>
   summarizeNote (sample_world mock_env blank_note (Inr ok_answer))
     (sample_request (js ''tok'') (id_object (js '' n1 '')) JUndefined) =
     ([VerifyIdToken (js ''tok''), GetNote (js ''u1'') (js ''n1'')],
      Inr \<lparr>status = 400,
           sent = Json (JObject [(js ''error'',
             JString (js ''Note has no text field (expected content/text/body)''))])\<rparr>)"
proof -
  let ?w = "sample_world mock_env blank_note (Inr ok_answer)"
  let ?req = "sample_request (js ''tok'') (id_object (js '' n1 '')) JUndefined"
  from note_text_first_populated [of body_note]
  have 1: "note_text body_note = JString (js ''Hello world. Second sentence.'')"
    by (simp add: text_fields_body_note hello_nonempty)
  have h: "noteId_of ?req = Inr (js ''n1'') \<and> js ''n1'' \<noteq> [] \<and>
      extractIdToken ?req = Inr (js ''tok'') \<and> verifyIdToken ?w (js ''tok'') = Inr (js ''u1'') \<and>
      getNote ?w (js ''u1'') (js ''n1'') = Inr blank_note \<and> exists blank_note \<and>
      find truthy (text_fields blank_note) = None"
    by (simp add: sample_reach text_fields_blank_note) (simp add: blank_note_def)
  from note_text_first_populated
    [of blank_note ?req "js ''n1''" "js ''tok''" ?w "js ''u1''"] h
  have "summarizeNote ?w ?req =
      ([VerifyIdToken (js ''tok''), GetNote (js ''u1'') (js ''n1'')], Inr no_text_field)"
    by blast
  with 1 show ?thesis
    by (simp add: no_text_field_def error_body_def)
qed

text \<open>
  C4 as it is worded lets the first present field win. In a note with an empty
  \<open>content\<close> and a \<open>text\<close> the field \<open>content\<close> is present: by that rule the text
  of the note is empty. The code passes over it and summarizes the field \<open>text\<close>.
\<close>

theorem note_text_present_counterexample:
  "note_text_claimed empty_content_note = JString [] \<and>
   note_text empty_content_note = JString (js ''Hello world. Second sentence.'') \<and>
   note_text empty_content_note \<noteq> note_text_claimed empty_content_note \<and>
   summarizeNote (sample_world mock_env empty_content_note (Inr ok_answer))
     (sample_request (js ''tok'') (id_object (js '' n1 '')) JUndefined) =
     ([VerifyIdToken (js ''tok''), GetNote (js ''u1'') (js ''n1'')],
      Inr \<lparr>status = 200,
           sent = Json (JObject [(js ''id'', JString (js ''n1'')),
                    (js ''summary'', JString (js ''Resumen: Hello world.'')),
                    (js ''mocked'', JBoolean True)])\<rparr>)"
proof -
  let ?w = "sample_world mock_env empty_content_note (Inr ok_answer)"
  let ?req = "sample_request (js ''tok'') (id_object (js '' n1 '')) JUndefined"
  have c: "note_text_claimed empty_content_note = JString []"
    by (simp add: note_text_claimed_def text_fields_empty_content_note)
  have t: "note_text empty_content_note = JString (js ''Hello world. Second sentence.'')"
    by (simp add: note_text_find text_fields_empty_content_note hello_nonempty)
  have ok: "exists empty_content_note" "truthy (note_text empty_content_note)"
    by (simp add: empty_content_note_def, simp add: t hello_nonempty)
  have m: "env ?w (js ''USE_MOCK_OPENAI'') = Some (js ''1'')"
    by (simp add: sample_world_def mock_env_def)
  have s: "summarizeNote ?w ?req =
      ([VerifyIdToken (js ''tok''), GetNote (js ''u1'') (js ''n1'')],
       Inr \<lparr>status = 200, sent = Json (mock_body (js ''n1'') (js ''Resumen: Hello world.''))\<rparr>)"
    using m
    by (simp add: summarizeNote_decision [OF sample_reach ok] respond_def t hello_summary)
  from c t s show ?thesis
    by (simp add: mock_body_def hello_nonempty)
qed

subsection \<open>Unauthorized\<close>

lemma bad_token: "extractIdToken (sample_request (js ''bad'') q b) = Inr (js ''bad'')"
  by (simp add: extractIdToken_def authHeader_def sample_request_def str_or_def match_bearer_def
      js_def ascii_upper_def is_line_terminator_def)

lemma bad_verify:
  "verifyIdToken (sample_world e note a) (js ''bad'') = Inl (Rejected (js ''invalid token''))"
  by (simp add: sample_world_def js_def)

lemma failing_store_answers:
  "verifyIdToken (failing_store (sample_world e note a)) (js ''tok'') = Inr (js ''u1'')"
  "getNotes (failing_store (sample_world e note a)) u = Inl (Rejected (js ''store unavailable''))"
  by (simp_all add: failing_store_def sample_world_def)

text \<open>
  C6. ListNotesHandler answers 401 with the plain text \<open>Unauthorized\<close> when the
  credential cannot be extracted, when its verification fails and when the read of the
  store fails: the caller cannot tell the three apart. SummarizeNoteHandler, once it has
  an identifier, answers a failed extraction or verification with 401 and the JSON body
  \<open>{error: "Unauthorized"}\<close>, which is another response.
\<close>

theorem unauthorized_responses:
  "(extractIdToken req = Inl e \<or>
    (extractIdToken req = Inr idToken \<and> verifyIdToken w idToken = Inl e) \<or>
    (extractIdToken req = Inr idToken \<and> verifyIdToken w idToken = Inr uid \<and>
     getNotes w uid = Inl e) \<longrightarrow>
      snd (getUserNotes w req) = Inr unauthorized) \<and>
   (noteId_of req = Inr noteId \<and> noteId \<noteq> [] \<and>
    (extractIdToken req = Inl e \<or>
     (extractIdToken req = Inr idToken \<and> verifyIdToken w idToken = Inl e)) \<longrightarrow>
      snd (summarizeNote w req) = Inr unauthorized_json) \<and>
   unauthorized \<noteq> unauthorized_json"
proof (intro conjI impI)
  assume "extractIdToken req = Inl e \<or>
    (extractIdToken req = Inr idToken \<and> verifyIdToken w idToken = Inl e) \<or>
    (extractIdToken req = Inr idToken \<and> verifyIdToken w idToken = Inr uid \<and>
     getNotes w uid = Inl e)"
  then show "snd (getUserNotes w req) = Inr unauthorized"
    by (auto simp: getUserNotes_def respond_def unauthorized_def)
next
  assume "noteId_of req = Inr noteId \<and> noteId \<noteq> [] \<and>
    (extractIdToken req = Inl e \<or>
     (extractIdToken req = Inr idToken \<and> verifyIdToken w idToken = Inl e))"
  then show "snd (summarizeNote w req) = Inr unauthorized_json"
    by (auto simp: summarizeNote_def respond_def unauthorized_json_def)
next
  show "unauthorized \<noteq> unauthorized_json"
    by (simp add: unauthorized_def unauthorized_json_def error_body_def)
qed

theorem unauthorized_responses_witness:
  "snd (getUserNotes (sample_world mock_env hello_note (Inr ok_answer))
     (anonymous_request (JObject []) JUndefined)) = Inr unauthorized \<and>
   snd (getUserNotes (sample_world mock_env hello_note (Inr ok_answer))
     (sample_request (js ''bad'') (JObject []) JUndefined)) = Inr unauthorized \<and>
   snd (getUserNotes (failing_store (sample_world mock_env hello_note (Inr ok_answer)))
     (sample_request (js ''tok'') (JObject []) JUndefined)) = Inr unauthorized \<and>
   snd (summarizeNote (sample_world mock_env hello_note (Inr ok_answer))
     (sample_request (js ''bad'') (id_object (js '' n1 '')) JUndefined)) = Inr unauthorized_json \<and>
   snd (summarizeNote (sample_world mock_env hello_note (Inr ok_answer))
     (anonymous_request (id_object (js '' n1 '')) JUndefined)) = Inr unauthorized_json \<and>
   unauthorized = \<lparr>status = 401, sent = Send (js ''Unauthorized'')\<rparr> \<and>
   unauthorized_json =
     \<lparr>status = 401, sent = Json (JObject [(js ''error'', JString (js ''Unauthorized''))])\<rparr>"
proof -
  let ?w = "sample_world mock_env hello_note (Inr ok_answer)"
  let ?anon = "anonymous_request (JObject []) JUndefined"
  let ?bad = "sample_request (js ''bad'') (JObject []) JUndefined"
  let ?good = "sample_request (js ''tok'') (JObject []) JUndefined"
  let ?sum = "sample_request (js ''bad'') (id_object (js '' n1 '')) JUndefined"
  let ?rej = "Rejected (js ''invalid token'')"
  from unauthorized_responses [of ?anon missing_credential]
  have 1: "snd (getUserNotes ?w ?anon) = Inr unauthorized"
    by (simp add: anonymous_token)
  from unauthorized_responses [of ?bad ?rej "js ''bad'' " ?w]
  have 2: "snd (getUserNotes ?w ?bad) = Inr unauthorized"
    by (simp add: bad_token bad_verify)
  from unauthorized_responses
    [of ?good "Rejected (js ''store unavailable'')" "js ''tok''" "failing_store ?w" "js ''u1''"]
  have 3: "snd (getUserNotes (failing_store ?w) ?good) = Inr unauthorized"
    by (simp add: sample_token failing_store_answers)
  from unauthorized_responses [of ?sum ?rej "js ''bad''" ?w _ "js ''n1''"]
  have 4: "snd (summarizeNote ?w ?sum) = Inr unauthorized_json"
    by (simp add: bad_token bad_verify sample_noteId n1_nonempty)
  have n: "noteId_of (anonymous_request (id_object (js '' n1 '')) JUndefined) = Inr (js ''n1'')"
    using noteId_of_query [of "anonymous_request (id_object (js '' n1 '')) JUndefined" "js '' n1 ''"]
    by (simp add: anonymous_request_def id_object_def member_def trim_n1) (simp add: js_def)
  from unauthorized_responses
    [of "anonymous_request (id_object (js '' n1 '')) JUndefined" missing_credential _ ?w _
      "js ''n1''"]
  have 5: "snd (summarizeNote ?w (anonymous_request (id_object (js '' n1 '')) JUndefined)) =
      Inr unauthorized_json"
    by (simp add: anonymous_token n n1_nonempty)
  from 1 2 3 4 5 show ?thesis
    by (simp add: unauthorized_def unauthorized_json_def error_body_def)
qed

end
